theory Spec2Isabelle
  imports Complex_Main
begin

section \<open>JavaScript values held by the state tree\<close>

text \<open>
  The state tree of \<open>GameState\<close> holds plain data. Numbers are exact rationals together
  with the two infinities and NaN (rounding and the sign of zero are left out). Objects
  are association lists of their own data properties; an array is the object keyed by
  its indices (its \<open>length\<close> is not kept). \<open>Frozen\<close> is an object after \<open>Object.freeze\<close>:
  it reads like an object and refuses every write. \<open>MapV\<close> is the \<open>Map\<close> of observer sets
  that \<open>this.observers\<close> holds: its first component maps a path pattern to the callbacks
  registered under it (a \<open>Set\<close>, in insertion order, callbacks named by numbers), its
  second component holds properties written onto the Map object itself.

  A value has the members it owns. The functions a value inherits from its prototype
  (\<open>constructor\<close>, \<open>toString\<close>, the methods of \<open>GameState\<close>, of \<open>Map\<close> and of arrays, ...)
  are not values of the model, and neither is the \<open>length\<close> of an array: a key that names
  one reads as \<open>undefined\<close> here. \<open>builtin_members\<close> lists these names; a statement that
  depends on what such a key reads excludes them. Two inherited accessors are followed,
  as far as own properties go: a write to \<open>__proto__\<close> on an object that owns no such
  property creates none, and the \<open>size\<close> of the Map can be read and not written.
\<close>

datatype jsnum = Fin rat | PosInf | NegInf | NaN

datatype jsval =
    Undefined
  | Null
  | Bool bool
  | Num jsnum
  | Str string
  | Obj "(string \<times> jsval) list"
  | Frozen "(string \<times> jsval) list"
  | MapV "(string \<times> nat list) list" "(string \<times> jsval) list"

datatype exn = TypeError | SyntaxError | InvalidCharacterError | QuotaExceededError

type_synonym store = "(string \<times> jsval) list"


fun js_add :: "jsnum \<Rightarrow> jsnum \<Rightarrow> jsnum" where
  "js_add NaN _ = NaN"
| "js_add _ NaN = NaN"
| "js_add (Fin a) (Fin b) = Fin (a + b)"
| "js_add (Fin _) PosInf = PosInf"
| "js_add (Fin _) NegInf = NegInf"
| "js_add PosInf NegInf = NaN"
| "js_add PosInf _ = PosInf"
| "js_add NegInf PosInf = NaN"
| "js_add NegInf _ = NegInf"



text \<open>Truthiness, as \<open>!x\<close> and \<open>x || y\<close> test it.\<close>

fun truthy :: "jsval \<Rightarrow> bool" where
  "truthy Undefined = False"
| "truthy Null = False"
| "truthy (Bool b) = b"
| "truthy (Num (Fin r)) = (r \<noteq> 0)"
| "truthy (Num NaN) = False"
| "truthy (Num _) = True"
| "truthy (Str s) = (s \<noteq> [])"
| "truthy (Obj _) = True"
| "truthy (Frozen _) = True"
| "truthy (MapV _ _) = True"

definition js_or :: "jsval \<Rightarrow> jsval \<Rightarrow> jsval" where
  "js_or a b = (if truthy a then a else b)"

text \<open>
  \<open>a !== b\<close>. Primitives compare by value, and NaN differs from itself. Two objects
  compare by reference, which a value does not carry: the caller of \<open>set\<close> knows whether
  the object it hands in is the very object stored (as when it reads an array, pushes onto
  it and writes it back), and says so with \<open>same\<close>.
\<close>

fun is_reference :: "jsval \<Rightarrow> bool" where
  "is_reference (Obj _) = True"
| "is_reference (Frozen _) = True"
| "is_reference (MapV _ _) = True"
| "is_reference _ = False"

fun value_neq :: "jsval \<Rightarrow> jsval \<Rightarrow> bool" where
  "value_neq Undefined Undefined = False"
| "value_neq Null Null = False"
| "value_neq (Bool a) (Bool b) = (a \<noteq> b)"
| "value_neq (Num NaN) (Num _) = True"
| "value_neq (Num _) (Num NaN) = True"
| "value_neq (Num a) (Num b) = (a \<noteq> b)"
| "value_neq (Str a) (Str b) = (a \<noteq> b)"
| "value_neq _ _ = True"

definition strict_neq :: "bool \<Rightarrow> jsval \<Rightarrow> jsval \<Rightarrow> bool" where
  "strict_neq same a b = (if is_reference a \<and> is_reference b then \<not> same else value_neq a b)"

subsection \<open>Property access\<close>

fun digit_of :: "char \<Rightarrow> nat option" where
  "digit_of c = (let n = (of_char c :: nat) in if 48 \<le> n \<and> n \<le> 57 then Some (n - 48) else None)"

fun parse_digits :: "nat \<Rightarrow> string \<Rightarrow> nat option" where
  "parse_digits acc [] = Some acc"
| "parse_digits acc (c # cs) =
     (case digit_of c of None \<Rightarrow> None | Some d \<Rightarrow> parse_digits (10 * acc + d) cs)"

text \<open>A canonical array index: decimal digits with no leading zero.\<close>

definition parse_index :: "string \<Rightarrow> nat option" where
  "parse_index s =
     (if s = [] then None
      else if hd s = CHR ''0'' \<and> tl s \<noteq> [] then None
      else parse_digits 0 s)"

fun digit_char :: "nat \<Rightarrow> char" where
  "digit_char n = char_of (48 + n mod 10)"

function show_nat :: "nat \<Rightarrow> string" where
  "show_nat n = (if n < 10 then [digit_char n] else show_nat (n div 10) @ [digit_char n])"
  by pat_completeness auto
termination
  by (relation "measure id") auto

definition obj_get :: "(string \<times> jsval) list \<Rightarrow> string \<Rightarrow> jsval" where
  "obj_get fs k = (case map_of fs k of None \<Rightarrow> Undefined | Some v \<Rightarrow> v)"

fun obj_put :: "string \<Rightarrow> 'a \<Rightarrow> (string \<times> 'a) list \<Rightarrow> (string \<times> 'a) list" where
  "obj_put k v [] = [(k, v)]"
| "obj_put k v ((k', v') # fs) = (if k = k' then (k, v) # fs else (k', v') # obj_put k v fs)"

text \<open>The own properties of a string primitive: its characters by index, and its length.\<close>

definition str_prop :: "string \<Rightarrow> string \<Rightarrow> jsval" where
  "str_prop s k =
     (if k = ''length'' then Num (Fin (of_nat (length s)))
      else (case parse_index k of
              Some i \<Rightarrow> (if i < length s then Str [s ! i] else Undefined)
            | None \<Rightarrow> Undefined))"

text \<open>\<open>value[key]\<close>: reading a property of \<open>null\<close> or \<open>undefined\<close> throws a TypeError.\<close>

fun get_prop :: "jsval \<Rightarrow> string \<Rightarrow> exn + jsval" where
  "get_prop Undefined k = Inl TypeError"
| "get_prop Null k = Inl TypeError"
| "get_prop (Obj fs) k = Inr (obj_get fs k)"
| "get_prop (Frozen fs) k = Inr (obj_get fs k)"
| "get_prop (MapV reg ex) k =
     Inr (if k = ''size'' \<and> map_of ex k = None then Num (Fin (of_nat (length reg)))
          else obj_get ex k)"
| "get_prop (Str s) k = Inr (str_prop s k)"
| "get_prop (Bool _) k = Inr Undefined"
| "get_prop (Num _) k = Inr Undefined"

text \<open>A plain object that takes writes: neither frozen nor the Map.\<close>

fun is_object :: "jsval \<Rightarrow> bool" where
  "is_object (Obj _) = True"
| "is_object _ = False"

text \<open>\<open>key in target\<close>: the operator throws a TypeError when \<open>target\<close> is not an object.\<close>

fun has_in :: "string \<Rightarrow> jsval \<Rightarrow> exn + bool" where
  "has_in k (Obj fs) = Inr (map_of fs k \<noteq> None)"
| "has_in k (Frozen fs) = Inr (map_of fs k \<noteq> None)"
| "has_in k (MapV reg ex) = Inr (k = ''size'' \<or> map_of ex k \<noteq> None)"
| "has_in k _ = Inl TypeError"

text \<open>
  A write of \<open>v\<close> under \<open>k\<close> into the own properties \<open>fs\<close> of an object that takes writes:
  the property is set, except that a write to \<open>__proto__\<close> on an object without an own
  property of that name goes to the inherited setter and leaves the own properties as
  they are.
\<close>

definition own_write :: "string \<Rightarrow> jsval \<Rightarrow> (string \<times> jsval) list \<Rightarrow> (string \<times> jsval) list" where
  "own_write k v fs = (if k = ''__proto__'' \<and> map_of fs k = None then fs else obj_put k v fs)"

text \<open>
  \<open>target[key] = v\<close> in strict mode (class bodies are strict): writing a property onto a
  primitive or onto a frozen object throws a TypeError, and so does writing the \<open>size\<close>
  of the Map, which has a getter only. (The inherited \<open>__proto__\<close> setter ignores a
  primitive value, also on a frozen object.)
\<close>

fun put_prop :: "jsval \<Rightarrow> string \<Rightarrow> jsval \<Rightarrow> exn + jsval" where
  "put_prop (Obj fs) k v = Inr (Obj (own_write k v fs))"
| "put_prop (MapV reg ex) k v =
     (if k = ''size'' \<and> map_of ex k = None then Inl TypeError
      else Inr (MapV reg (own_write k v ex)))"
| "put_prop (Frozen fs) k v =
     (if k = ''__proto__'' \<and> map_of fs k = None \<and> \<not> is_reference v \<and> v \<noteq> Null
      then Inr (Frozen fs) else Inl TypeError)"
| "put_prop _ k v = Inl TypeError"


subsection \<open>Dotted paths\<close>

text \<open>\<open>path.split('.')\<close>: never empty; the empty string splits into one empty key.\<close>

fun split_dot :: "string \<Rightarrow> string list" where
  "split_dot [] = [[]]"
| "split_dot (c # cs) =
     (if c = CHR ''.'' then [] # split_dot cs
      else (case split_dot cs of [] \<Rightarrow> [[c]] | w # ws \<Rightarrow> (c # w) # ws))"

text \<open>\<open>parts.join('.')\<close>.\<close>

fun join_dot :: "string list \<Rightarrow> string" where
  "join_dot [] = []"
| "join_dot [w] = w"
| "join_dot (w # ws) = w @ ''.'' @ join_dot ws"

section \<open>GameState\<close>

text \<open>
  The constructor: the own properties of a new \<open>GameState\<close>, in the order the
  constructor assigns them.
\<close>

definition num :: "rat \<Rightarrow> jsval" where
  "num r = Num (Fin r)"

definition default_resources :: jsval where
  "default_resources = Obj
     [(''clips'', num 0), (''unusedClips'', num 0), (''unsoldClips'', num 0), (''clipsSold'', num 0),
      (''finalClips'', num 0), (''funds'', num 0), (''bankroll'', num 0), (''wire'', num 1000),
      (''wireSupply'', num 1000), (''nanoWire'', num 0), (''availableMatter'', num 0),
      (''acquiredMatter'', num 0), (''processedMatter'', num 0), (''totalMatter'', num 0),
      (''foundMatter'', num 0)]"

definition default_production :: jsval where
  "default_production = Obj
     [(''clipRate'', num 0), (''clipRateTemp'', num 0), (''clipRateTracker'', num 0),
      (''clipmakerRate'', num 0), (''clipmakerLevel'', num 0), (''clipmakerLevel2'', num 0),
      (''megaClipperLevel'', num 0), (''clipperBoost'', num 1), (''megaClipperBoost'', num 1),
      (''factoryBoost'', num 1), (''droneBoost'', num 1), (''factoryRate'', num 0),
      (''harvesterRate'', num 0), (''wireDroneRate'', num 0), (''farmRate'', num 0)]"

definition default_market :: jsval where
  "default_market = Obj
     [(''margin'', num (1 / 100)), (''demand'', num 10), (''demandBoost'', num 1),
      (''marketingLvl'', num 1), (''marketingEffectiveness'', num 1), (''wireCost'', num 20),
      (''wireBasePrice'', num 20), (''clipperCost'', num 5), (''megaClipperCost'', num 500),
      (''marketing'', num 1), (''adCost'', num 100), (''avgRev'', num 0), (''income'', num 0),
      (''incomeTracker'', Obj [(''0'', num 0)])]"

definition default_computing :: jsval where
  "default_computing = Obj
     [(''processors'', num 1), (''memory'', num 1), (''operations'', num 0), (''tempOps'', num 0),
      (''standardOps'', num 0), (''trust'', num 2), (''maxTrust'', num 2), (''nextTrust'', num 3000),
      (''maxTrustCost'', num 3000), (''creativity'', num 0), (''creativitySpeed'', num 0),
      (''creativityCounter'', num 0), (''qChipCost'', num 10000), (''nextQchip'', num 0),
      (''qClock'', num 0)]"

definition default_infrastructure :: jsval where
  "default_infrastructure = Obj
     [(''factoryLevel'', num 0), (''factoryCost'', num 100000000), (''factoryBill'', num 0),
      (''harvesterLevel'', num 0), (''harvesterCost'', num 1000000), (''harvesterBill'', num 0),
      (''wireDroneLevel'', num 0), (''wireDroneCost'', num 1000000), (''wireDroneBill'', num 0),
      (''farmLevel'', num 0), (''farmCost'', num 10000000), (''batteryLevel'', num 0),
      (''batteryCost'', num 1000000000), (''storedPower'', num 0), (''batterySize'', num 0)]"

definition default_combat :: jsval where
  "default_combat = Obj
     [(''probeCombat'', num 0), (''drifterCombat'', num 0), (''attackSpeed'', num (2 / 10)),
      (''battleSpeed'', num (2 / 10)), (''battles'', Obj []), (''battleID'', num 0),
      (''maxBattles'', num 1), (''battleClock'', num 0), (''driftersKilled'', num 0),
      (''honor'', num 0), (''honorCount'', num 0), (''bonusHonor'', num 0)]"

definition default_flags :: jsval where
  "default_flags = Obj
     [(''human'', Bool True), (''trust'', Bool False), (''creation'', Bool False),
      (''space'', Bool False), (''endgame'', Bool False), (''factory'', Bool False),
      (''harvester'', Bool False), (''wireDrone'', Bool False), (''battle'', Bool False),
      (''swarm'', Bool False), (''milestone'', Bool False), (''projects'', Bool False),
      (''comp'', Bool False), (''revPerSec'', Bool False), (''autoClipper'', Bool False),
      (''megaClipper'', Bool False), (''wireBuyer'', Bool False),
      (''strategyEngine'', Bool False), (''investmentEngine'', Bool False),
      (''creativity'', Bool False), (''quantum'', Bool False)]"

definition default_swarm :: jsval where
  "default_swarm = Obj
     [(''status'', num 0), (''gifts'', num 0), (''nextGift'', num 0), (''giftPeriod'', num 0),
      (''probeCount'', num 0), (''probesLaunched'', num 0), (''harvesterProbes'', num 0),
      (''wireProbes'', num 0), (''combatProbes'', num 0), (''harvesterRatio'', num (5 / 10)),
      (''wireRatio'', num (3 / 10)), (''combatRatio'', num (2 / 10)), (''giftCountdown'', num 0),
      (''disorgCounter'', num 0), (''disorgFlag'', num 0), (''boredomLevel'', num 0),
      (''boredomFlag'', num 0)]"

definition default_exploration :: jsval where
  "default_exploration = Obj
     [(''exploredSpace'', num 0), (''sectors'', Obj []), (''probeSpeed'', num 1),
      (''matterDensity'', num (1 / 10))]"

definition default_ui :: jsval where
  "default_ui = Obj
     [(''ticks'', num 0), (''blinkCounter'', num 0), (''elapsedTime'', num 0),
      (''wirePriceTimer'', num 0), (''opFadeTimer'', num 0), (''endTimer1'', num 0),
      (''endTimer2'', num 0), (''endTimer3'', num 0), (''endTimer4'', num 0), (''endTimer5'', num 0),
      (''endTimer6'', num 0), (''battleEndTimer'', num 0), (''sliderPos'', num 50), (''qFade'', num 1),
      (''opFade'', num 1)]"

definition default_meta :: jsval where
  "default_meta = Obj
     [(''prestigeU'', num 0), (''prestigeS'', num 0), (''dismantle'', num 0), (''resetFlag'', num 0),
      (''transaction'', Null)]"

definition new_GameState :: store where
  "new_GameState =
     [(''observers'', MapV [] []),
      (''resources'', default_resources),
      (''production'', default_production),
      (''market'', default_market),
      (''computing'', default_computing),
      (''infrastructure'', default_infrastructure),
      (''combat'', default_combat),
      (''flags'', default_flags),
      (''swarm'', default_swarm),
      (''exploration'', default_exploration),
      (''ui'', default_ui),
      (''meta'', default_meta)]"

subsection \<open>get\<close>

text \<open>
  The loop of \<open>get\<close>: read the next key of the current value; stop with \<open>undefined\<close> as
  soon as a read gives \<open>undefined\<close>. A read on \<open>null\<close> throws.
\<close>

fun get_loop :: "jsval \<Rightarrow> string list \<Rightarrow> exn + jsval" where
  "get_loop v [] = Inr v"
| "get_loop v (k # ks) =
     (case get_prop v k of
        Inl e \<Rightarrow> Inl e
      | Inr v' \<Rightarrow> (if v' = Undefined then Inr Undefined else get_loop v' ks))"

definition get :: "store \<Rightarrow> string \<Rightarrow> exn + jsval" where
  "get this path = get_loop (Obj this) (split_dot path)"

subsection \<open>set and the observers\<close>

text \<open>
  One callback invocation: the callback, the new value, the old value and, for a wildcard
  observer, the path as third argument. Every invocation sits in its own try/catch that
  only logs, so what a callback throws does not change which callbacks run. What a
  callback does is not followed: in particular a callback is taken not to register or
  dispose an observer, and not to write the store, while the observers are being
  notified.
\<close>

datatype call = Call nat jsval jsval "string option"

definition map_get :: "(string \<times> nat list) list \<Rightarrow> string \<Rightarrow> nat list" where
  "map_get reg k = (case map_of reg k of None \<Rightarrow> [] | Some cbs \<Rightarrow> cbs)"




text \<open>
  The wildcard loop of \<open>notifyObservers\<close>: \<open>i\<close> runs from \<open>pathParts.length - 1\<close> down
  to 1, and the pattern is the first \<open>i\<close> parts joined, followed by \<open>.*\<close>.
\<close>

fun wildcard_loop ::
  "(string \<times> nat list) list \<Rightarrow> string list \<Rightarrow> jsval \<Rightarrow> jsval \<Rightarrow> string \<Rightarrow> nat \<Rightarrow> call list" where
  "wildcard_loop reg parts nv ov path 0 = []"
| "wildcard_loop reg parts nv ov path (Suc j) =
     map (\<lambda>cb. Call cb nv ov (Some path)) (map_get reg (join_dot (take (Suc j) parts) @ ''.*''))
     @ wildcard_loop reg parts nv ov path j"

text \<open>
  A property written onto the Map object under the name of one of its methods hides the
  method. What it holds is data, so the call of the method throws a TypeError.
\<close>

definition shadowed :: "(string \<times> jsval) list \<Rightarrow> string \<Rightarrow> bool" where
  "shadowed ex name = (map_of ex name \<noteq> None)"

text \<open>
  \<open>notifyObservers\<close>: \<open>this.observers.get(path)\<close> throws a TypeError when
  \<open>this.observers\<close> no longer holds the Map, or when the Map's \<open>get\<close> is hidden.
\<close>

definition notifyObservers :: "store \<Rightarrow> string \<Rightarrow> jsval \<Rightarrow> jsval \<Rightarrow> exn + call list" where
  "notifyObservers this path nv ov =
     (case obj_get this ''observers'' of
        MapV reg ex \<Rightarrow>
          (if shadowed ex ''get'' then Inl TypeError
           else Inr (map (\<lambda>cb. Call cb nv ov None) (map_get reg path)
                     @ wildcard_loop reg (split_dot path) nv ov path (length (split_dot path) - 1)))
      | _ \<Rightarrow> Inl TypeError)"

text \<open>
  The traversal of \<open>set\<close>: for each key but the last, create an empty object when the key
  is not in the target, then step into it; at the end read the old value and assign the
  new one. The result is the updated target and the old value.
\<close>

fun assign_path :: "jsval \<Rightarrow> string list \<Rightarrow> string \<Rightarrow> jsval \<Rightarrow> exn + (jsval \<times> jsval)" where
  "assign_path target [] lastKey nv =
     (case get_prop target lastKey of
        Inl e \<Rightarrow> Inl e
      | Inr oldValue \<Rightarrow>
          (case put_prop target lastKey nv of
             Inl e \<Rightarrow> Inl e
           | Inr target' \<Rightarrow> Inr (target', oldValue)))"
| "assign_path target (key # keys) lastKey nv =
     (case has_in key target of
        Inl e \<Rightarrow> Inl e
      | Inr present \<Rightarrow>
          (case get_prop target key of
             Inl e \<Rightarrow> Inl e
           | Inr child \<Rightarrow>
               (case assign_path (if present then child else Obj []) keys lastKey nv of
                  Inl e \<Rightarrow> Inl e
                | Inr (child', oldValue) \<Rightarrow>
                    (case put_prop target key child' of
                       Inl e \<Rightarrow> Inl e
                     | Inr target' \<Rightarrow> Inr (target', oldValue)))))"

fun the_fields :: "jsval \<Rightarrow> store" where
  "the_fields (Obj fs) = fs"
| "the_fields (MapV reg ex) = ex"
| "the_fields _ = []"

text \<open>
  \<open>set\<close> gives the exception it throws (if any), the store afterwards and the callback
  invocations it made. A throw in the traversal leaves the store as it was; a throw in
  \<open>notifyObservers\<close> comes after the assignment. \<open>same\<close> says that the value handed in is
  the very object the path holds.
\<close>

definition set_ref :: "bool \<Rightarrow> store \<Rightarrow> string \<Rightarrow> jsval \<Rightarrow> exn option \<times> store \<times> call list" where
  "set_ref same this path nv =
     (case assign_path (Obj this) (butlast (split_dot path)) (last (split_dot path)) nv of
        Inl e \<Rightarrow> (Some e, this, [])
      | Inr (this', oldValue) \<Rightarrow>
          (if strict_neq same oldValue nv
           then (case notifyObservers (the_fields this') path nv oldValue of
                   Inl e \<Rightarrow> (Some e, the_fields this', [])
                 | Inr cs \<Rightarrow> (None, the_fields this', cs))
           else (None, the_fields this', [])))"

text \<open>\<open>set\<close> with a primitive value, or with an object that is not the one stored.\<close>

definition set_path :: "store \<Rightarrow> string \<Rightarrow> jsval \<Rightarrow> exn option \<times> store \<times> call list" where
  "set_path this path nv = set_ref False this path nv"

subsection \<open>increment and decrement\<close>

text \<open>
  What the host supplies: \<open>ToNumber\<close> on strings and objects, \<open>+\<close> with a string or object
  on the left (a concatenation), the JSON codec, \<open>atob\<close> (\<open>None\<close>: it throws), the clock,
  and whether \<open>localStorage\<close> accepts a text (it throws a QuotaExceededError otherwise).
\<close>

record runtime =
  to_number_ext :: "jsval \<Rightarrow> jsnum"
  plus_ext :: "jsval \<Rightarrow> jsnum \<Rightarrow> jsval"
  json_parse :: "string \<Rightarrow> jsval option"
  json_stringify :: "jsval \<Rightarrow> string"
  atob :: "string \<Rightarrow> string option"
  date_now :: rat
  storage_accepts :: "string \<Rightarrow> bool"

fun to_number :: "runtime \<Rightarrow> jsval \<Rightarrow> jsnum" where
  "to_number rt Undefined = NaN"
| "to_number rt Null = Fin 0"
| "to_number rt (Bool b) = Fin (if b then 1 else 0)"
| "to_number rt (Num x) = x"
| "to_number rt v = to_number_ext rt v"

fun js_plus :: "runtime \<Rightarrow> jsval \<Rightarrow> jsnum \<Rightarrow> jsval" where
  "js_plus rt (Str s) b = plus_ext rt (Str s) b"
| "js_plus rt (Obj fs) b = plus_ext rt (Obj fs) b"
| "js_plus rt (Frozen fs) b = plus_ext rt (Frozen fs) b"
| "js_plus rt (MapV reg ex) b = plus_ext rt (MapV reg ex) b"
| "js_plus rt a b = Num (js_add (to_number rt a) b)"

definition increment :: "runtime \<Rightarrow> store \<Rightarrow> string \<Rightarrow> jsnum \<Rightarrow> exn option \<times> store \<times> call list" where
  "increment rt this path amount =
     (case get this path of
        Inl e \<Rightarrow> (Some e, this, [])
      | Inr g \<Rightarrow> set_path this path (js_plus rt (js_or g (num 0)) amount))"



subsection \<open>addObserver and its disposer\<close>




subsection \<open>Registrations and the calls they are owed\<close>





subsection \<open>save, load, reset, importSave\<close>

definition categories :: "string list" where
  "categories = [''resources'', ''production'', ''market'', ''computing'', ''infrastructure'',
                 ''combat'', ''flags'', ''swarm'', ''exploration'', ''ui'', ''meta'']"

text \<open>
  \<open>localStorage\<close> is the text stored under the key \<open>universalPaperclipsSave\<close>, if any.
  \<open>save\<close> catches whatever \<open>setItem\<close> throws and answers \<open>false\<close>.
\<close>

type_synonym storage = "string option"

definition save :: "runtime \<Rightarrow> store \<Rightarrow> storage \<Rightarrow> bool \<times> storage" where
  "save rt this ls =
     (let saveData = Obj [(''version'', Str ''2.0.0''),
                          (''timestamp'', num (date_now rt)),
                          (''state'', Obj (map (\<lambda>c. (c, obj_get this c)) categories))];
          text = json_stringify rt saveData
      in if storage_accepts rt text then (True, Some text) else (False, ls))"

text \<open>
  The own enumerable properties of a value, each key once (where an association list
  binds a key twice, the first binding is the property).
\<close>

fun dedup :: "string list \<Rightarrow> (string \<times> 'a) list \<Rightarrow> (string \<times> 'a) list" where
  "dedup seen [] = []"
| "dedup seen ((k, v) # fs) =
     (if k \<in> set seen then dedup seen fs else (k, v) # dedup (k # seen) fs)"

fun own_enumerable :: "jsval \<Rightarrow> (string \<times> jsval) list" where
  "own_enumerable (Obj fs) = dedup [] fs"
| "own_enumerable (Frozen fs) = dedup [] fs"
| "own_enumerable (MapV reg ex) = dedup [] ex"
| "own_enumerable (Str s) = map (\<lambda>i. (show_nat i, Str [s ! i])) [0..<length s]"
| "own_enumerable _ = []"

text \<open>
  One assignment of \<open>Object.assign\<close> onto the target converted to an object. A number or
  boolean target is wrapped, and the wrapper is dropped afterwards; the wrapper of a
  string refuses a write to its characters and its length. On an object the assignment
  is the one of \<open>put_prop\<close>: the key \<open>__proto__\<close> goes to the setter, a frozen target
  throws.
\<close>

fun wrapper_put :: "jsval \<Rightarrow> string \<Rightarrow> jsval \<Rightarrow> exn + jsval" where
  "wrapper_put (Obj fs) k v = put_prop (Obj fs) k v"
| "wrapper_put (MapV reg ex) k v = put_prop (MapV reg ex) k v"
| "wrapper_put (Frozen fs) k v = put_prop (Frozen fs) k v"
| "wrapper_put (Str s) k v =
     (if k = ''length'' then Inl TypeError
      else (case parse_index k of
              Some i \<Rightarrow> (if i < length s then Inl TypeError else Inr (Str s))
            | None \<Rightarrow> Inr (Str s)))"
| "wrapper_put Undefined k v = Inl TypeError"
| "wrapper_put Null k v = Inl TypeError"
| "wrapper_put t k v = Inr t"

fun assign_props :: "(string \<times> jsval) list \<Rightarrow> jsval \<Rightarrow> exn + jsval" where
  "assign_props [] t = Inr t"
| "assign_props ((k, v) # ps) t =
     (case wrapper_put t k v of Inl e \<Rightarrow> Inl e | Inr t' \<Rightarrow> assign_props ps t')"

text \<open>\<open>Object.assign(target, source)\<close>: a TypeError on a \<open>null\<close> or \<open>undefined\<close> target.\<close>

definition object_assign :: "jsval \<Rightarrow> jsval \<Rightarrow> exn + jsval" where
  "object_assign target source =
     (case target of
        Undefined \<Rightarrow> Inl TypeError
      | Null \<Rightarrow> Inl TypeError
      | _ \<Rightarrow> assign_props (own_enumerable source) target)"

text \<open>
  The eleven \<open>Object.assign(this.c, parsed.state.c || {})\<close> statements of \<open>load\<close>, in
  order. An exception is caught by \<open>load\<close>, which answers \<open>false\<close>; the categories merged
  before it stay merged.
\<close>

fun restore :: "string list \<Rightarrow> jsval \<Rightarrow> store \<Rightarrow> bool \<times> store" where
  "restore [] pstate this = (True, this)"
| "restore (c # cs) pstate this =
     (case get_prop pstate c of
        Inl e \<Rightarrow> (False, this)
      | Inr src \<Rightarrow>
          (case object_assign (obj_get this c) (js_or src (Obj [])) of
             Inl e \<Rightarrow> (False, this)
           | Inr t' \<Rightarrow> restore cs pstate (obj_put c t' this)))"

definition load :: "runtime \<Rightarrow> storage \<Rightarrow> store \<Rightarrow> bool \<times> store" where
  "load rt ls this =
     (case ls of
        None \<Rightarrow> (False, this)
      | Some saveData \<Rightarrow>
          (if saveData = [] then (False, this)
           else (case json_parse rt saveData of
                   None \<Rightarrow> (False, this)
                 | Some parsed \<Rightarrow>
                     (case get_prop parsed ''state'' of
                        Inl e \<Rightarrow> (False, this)
                      | Inr pstate \<Rightarrow>
                          (if \<not> truthy pstate then (False, this)
                           else (case get_prop parsed ''version'' of
                                   Inl e \<Rightarrow> (False, this)
                                 | Inr pversion \<Rightarrow>
                                     (if \<not> truthy pversion then (False, this)
                                      else restore categories pstate this)))))))"


text \<open>
  \<open>importSave\<close>: decode, store the decoded text, then load. The result is the answer,
  the store and the storage afterwards.
\<close>

definition importSave :: "runtime \<Rightarrow> string \<Rightarrow> store \<Rightarrow> storage \<Rightarrow> bool \<times> store \<times> storage" where
  "importSave rt encodedSave this ls =
     (case atob rt encodedSave of
        None \<Rightarrow> (False, this, ls)
      | Some saveData \<Rightarrow>
          (if \<not> storage_accepts rt saveData then (False, this, ls)
           else (case load rt (Some saveData) this of
                   (ok, this') \<Rightarrow> (ok, this', Some saveData))))"

text \<open>
  Reading a field where a missing one reads as \<open>undefined\<close>; a field that is there with a
  truthy value; the value \<open>Object.assign\<close> copies from a source for a key (that of the last
  own enumerable property with the key); and \<open>parsed.state.c || {}\<close>.
\<close>

definition field :: "jsval \<Rightarrow> string \<Rightarrow> jsval" where
  "field v k = (case get_prop v k of Inl e \<Rightarrow> Undefined | Inr x \<Rightarrow> x)"

definition truthy_field :: "jsval \<Rightarrow> string \<Rightarrow> bool" where
  "truthy_field v k = truthy (field v k)"

definition assigned :: "jsval \<Rightarrow> string \<Rightarrow> jsval option" where
  "assigned source k = map_of (rev (own_enumerable source)) k"

definition saved_category :: "jsval \<Rightarrow> string \<Rightarrow> jsval" where
  "saved_category pstate c = js_or (field pstate c) (Obj [])"

section \<open>ErrorHandler\<close>

text \<open>
  An \<open>Error\<close> as \<open>handleError\<close> documents its argument: an object with a name and a
  message. A log entry keeps the level, the message and what the context says about the
  handler and the delta (time stamps are left out).
\<close>

record js_error =
  err_name :: string
  err_message :: string

record log_entry =
  level :: string
  message :: string
  ctx_handler :: "string option"
  ctx_delta :: "int option"

text \<open>\<open>log\<close>: push the entry, and drop the oldest one beyond \<open>maxLogSize = 100\<close>.\<close>

definition log_push :: "log_entry \<Rightarrow> log_entry list \<Rightarrow> log_entry list" where
  "log_push e lg = (let l = lg @ [e] in if length l > 100 then tl l else l)"

text \<open>
  \<open>handleError\<close>: one entry at level \<open>error\<close>, then \<open>attemptRecovery\<close>, which logs at level
  \<open>info\<close> and, for a QuotaExceededError, at level \<open>warn\<close> (the keys it then prunes from
  \<open>localStorage\<close> start with \<open>paperclips_\<close>; the save is not among them).
\<close>

definition handleError ::
  "js_error \<Rightarrow> string \<Rightarrow> string option \<Rightarrow> int option \<Rightarrow> log_entry list \<Rightarrow> log_entry list" where
  "handleError err source h d lg =
     (let lg1 = log_push \<lparr>level = ''error'',
                         message = ''Error in '' @ source @ '': '' @ err_message err,
                         ctx_handler = h, ctx_delta = d\<rparr> lg;
          lg2 = log_push \<lparr>level = ''info'',
                         message = ''Attempting recovery from error in '' @ source,
                         ctx_handler = None, ctx_delta = None\<rparr> lg1
      in if err_name err = ''QuotaExceededError''
         then log_push \<lparr>level = ''warn'',
                        message = ''localStorage quota exceeded, clearing old data'',
                        ctx_handler = None, ctx_delta = None\<rparr> lg2
         else lg2)"

text \<open>The \<open>Error\<close> object of a host exception (its message is left empty).\<close>

definition error_of :: "exn \<Rightarrow> js_error" where
  "error_of e =
     (case e of
        TypeError \<Rightarrow> \<lparr>err_name = ''TypeError'', err_message = []\<rparr>
      | SyntaxError \<Rightarrow> \<lparr>err_name = ''SyntaxError'', err_message = []\<rparr>
      | InvalidCharacterError \<Rightarrow> \<lparr>err_name = ''InvalidCharacterError'', err_message = []\<rparr>
      | QuotaExceededError \<Rightarrow> \<lparr>err_name = ''QuotaExceededError'', err_message = []\<rparr>)"

text \<open>
  What a \<open>throw\<close> statement can throw, as \<open>handleError\<close> sees it. \<open>handleError\<close> builds its
  message from \<open>error.message\<close> before it logs anything, and reads \<open>error.name\<close> and
  \<open>error.stack\<close>: on \<open>null\<close> and \<open>undefined\<close> the first read throws a TypeError; on a
  value whose members cannot be read or whose message cannot be made a string, the read
  throws what the value makes it throw; any other value is logged, with the message and
  the name read from it.
\<close>

datatype thrown =
    ThrownNull
  | ThrownUndefined
  | ThrownUnreadable thrown
  | ThrownValue js_error

fun handleError_thrown ::
  "thrown \<Rightarrow> string \<Rightarrow> string option \<Rightarrow> int option \<Rightarrow> log_entry list \<Rightarrow> thrown + log_entry list" where
  "handleError_thrown ThrownNull source h d lg = Inl (ThrownValue (error_of TypeError))"
| "handleError_thrown ThrownUndefined source h d lg = Inl (ThrownValue (error_of TypeError))"
| "handleError_thrown (ThrownUnreadable t) source h d lg = Inl t"
| "handleError_thrown (ThrownValue err) source h d lg = Inr (handleError err source h d lg)"

section \<open>GameLoop\<close>

text \<open>
  What handlers act on: the \<open>gameState\<close> singleton, \<open>localStorage\<close>, the error log, the
  frames requested from the display, and everything else a handler can reach (\<open>'x\<close>).
  A handler returns or throws, and leaves a world behind either way. Handlers are taken
  not to change the handler lists of the loop while it iterates over them.
\<close>

record 'x world =
  gameState :: store
  localStorage :: storage
  errorLog :: "log_entry list"
  frames :: "nat list"
  ext :: 'x

datatype 'w outcome = Returned 'w | Threw thrown 'w

record 'x update_handler =
  uname :: string
  urun :: "int \<Rightarrow> 'x world \<Rightarrow> 'x world outcome"

record 'x render_handler =
  rname :: string
  rrun :: "'x world \<Rightarrow> 'x world outcome"

record 'x game_loop =
  running :: bool
  lastUpdate :: int
  lastRender :: int
  lastAutosave :: int
  lastCleanup :: int
  updateHandlers :: "'x update_handler list"
  renderHandlers :: "'x render_handler list"
  animationFrameId :: "nat option"
  cleanupInterval :: int

definition DISPLAY_UPDATE_INTERVAL :: int where
  "DISPLAY_UPDATE_INTERVAL = 16"

definition AUTOSAVE_INTERVAL :: int where
  "AUTOSAVE_INTERVAL = 30000"

text \<open>\<open>handler.name || 'anonymous'\<close>.\<close>

definition handler_name :: "string \<Rightarrow> string" where
  "handler_name nm = (if nm = [] then ''anonymous'' else nm)"

text \<open>
  The \<open>for\<close> loop of \<open>update\<close>: each call in its own try/catch, whose catch block hands
  what was thrown to \<open>handleError\<close> with the handler's name and the delta. What
  \<open>handleError\<close> throws leaves the catch block and with it the loop: the handlers after
  it do not run.
\<close>

fun run_update_handlers ::
  "'x update_handler list \<Rightarrow> int \<Rightarrow> 'x world \<Rightarrow> thrown option \<times> 'x world" where
  "run_update_handlers [] deltaTime w = (None, w)"
| "run_update_handlers (h # hs) deltaTime w =
     (case urun h deltaTime w of
        Returned w' \<Rightarrow> run_update_handlers hs deltaTime w'
      | Threw t w' \<Rightarrow>
          (case handleError_thrown t ''gameLoop.update''
                  (Some (handler_name (uname h))) (Some deltaTime) (errorLog w') of
             Inl t' \<Rightarrow> (Some t', w')
           | Inr lg \<Rightarrow> run_update_handlers hs deltaTime (w'\<lparr>errorLog := lg\<rparr>)))"

fun run_render_handlers :: "'x render_handler list \<Rightarrow> 'x world \<Rightarrow> thrown option \<times> 'x world" where
  "run_render_handlers [] w = (None, w)"
| "run_render_handlers (h # hs) w =
     (case rrun h w of
        Returned w' \<Rightarrow> run_render_handlers hs w'
      | Threw t w' \<Rightarrow>
          (case handleError_thrown t ''gameLoop.render''
                  (Some (handler_name (rname h))) None (errorLog w') of
             Inl t' \<Rightarrow> (Some t', w')
           | Inr lg \<Rightarrow> run_render_handlers hs (w'\<lparr>errorLog := lg\<rparr>)))"

definition plain_entry :: "string \<Rightarrow> string \<Rightarrow> log_entry" where
  "plain_entry lv msg = \<lparr>level = lv, message = msg, ctx_handler = None, ctx_delta = None\<rparr>"

text \<open>
  \<open>performanceMonitor.measure(fn, name)\<close> around a body that has run. When the body
  returned, \<open>measure\<close> logs a slow operation at level \<open>debug\<close>: \<open>slow\<close> holds the duration as
  \<open>toFixed(2)\<close> prints it when the clock of the host measured more than 16 ms. When the
  body threw, \<open>measure\<close> hands what was thrown to \<open>handleError\<close> and throws it again (or
  throws what \<open>handleError\<close> threw). The metrics \<open>measure\<close> keeps are left out.
\<close>

definition measured ::
  "string \<Rightarrow> string option \<Rightarrow> thrown option \<times> 'x world \<Rightarrow> thrown option \<times> 'x world" where
  "measured name slow r =
     (case r of
        (None, w) \<Rightarrow>
          (case slow of
             None \<Rightarrow> (None, w)
           | Some duration \<Rightarrow>
               (None, w\<lparr>errorLog :=
                           log_push (plain_entry ''debug''
                                       (''Slow operation: '' @ name @ '' took '' @ duration @ ''ms''))
                                    (errorLog w)\<rparr>))
      | (Some t, w) \<Rightarrow>
          (case handleError_thrown t (''performanceMonitor.measure.'' @ name) None None (errorLog w) of
             Inl t' \<Rightarrow> (Some t', w)
           | Inr lg \<Rightarrow> (Some t, w\<lparr>errorLog := lg\<rparr>)))"

text \<open>The durations the host clock measures in one iteration of the loop, when slow.\<close>

record timings =
  slow_update :: "string option"
  slow_render :: "string option"

text \<open>
  \<open>update\<close>: inside \<open>measure\<close>, the tick counter is incremented and the handlers run. What
  the observers of \<open>ui.ticks\<close> do when the increment calls them is left out.
\<close>

definition update ::
  "runtime \<Rightarrow> timings \<Rightarrow> 'x game_loop \<Rightarrow> int \<Rightarrow> 'x world \<Rightarrow> thrown option \<times> 'x world" where
  "update rt tm gl deltaTime w =
     measured ''update'' (slow_update tm)
       (case increment rt (gameState w) ''ui.ticks'' (Fin 1) of
          (Some e, gs, cs) \<Rightarrow> (Some (ThrownValue (error_of e)), w\<lparr>gameState := gs\<rparr>)
        | (None, gs, cs) \<Rightarrow>
            run_update_handlers (updateHandlers gl) deltaTime (w\<lparr>gameState := gs\<rparr>))"

definition render :: "timings \<Rightarrow> 'x game_loop \<Rightarrow> 'x world \<Rightarrow> thrown option \<times> 'x world" where
  "render tm gl w =
     measured ''render'' (slow_render tm) (run_render_handlers (renderHandlers gl) w)"

definition autosave :: "runtime \<Rightarrow> 'x world \<Rightarrow> 'x world" where
  "autosave rt w =
     (case save rt (gameState w) (localStorage w) of
        (saved, ls) \<Rightarrow>
          w\<lparr>localStorage := ls,
            errorLog := log_push (if saved then plain_entry ''debug'' ''Game autosaved''
                                  else plain_entry ''warn'' ''Autosave failed'') (errorLog w)\<rparr>)"

text \<open>
  What \<open>loop\<close> does after \<open>update\<close> and \<open>render\<close>: the autosave and the housekeeping when
  they are due, then the request of the next frame. The housekeeping of \<open>cleanup\<close> sits in
  one try/catch and touches neither the handlers nor the game state: what it does to the
  caches and the log is the given function \<open>cleanup\<close>. \<open>performanceMonitor.recordFrame\<close>
  only samples timings and is left out. \<open>requestAnimationFrame\<close> hands out the next frame
  number.
\<close>

definition loop_tail ::
  "runtime \<Rightarrow> ('x world \<Rightarrow> 'x world) \<Rightarrow> int \<Rightarrow> int \<Rightarrow> int \<Rightarrow> 'x game_loop \<Rightarrow> 'x world
   \<Rightarrow> 'x game_loop \<times> 'x world" where
  "loop_tail rt cleanup now autosaveDelta cleanupDelta gl w =
     (let w3 = (if autosaveDelta \<ge> AUTOSAVE_INTERVAL then autosave rt w else w);
          gl3 = (if autosaveDelta \<ge> AUTOSAVE_INTERVAL then gl\<lparr>lastAutosave := now\<rparr> else gl);
          w4 = (if cleanupDelta \<ge> cleanupInterval gl3 then cleanup w3 else w3);
          gl4 = (if cleanupDelta \<ge> cleanupInterval gl3 then gl3\<lparr>lastCleanup := now\<rparr> else gl3);
          frame = length (frames w4)
      in (gl4\<lparr>animationFrameId := Some frame\<rparr>, w4\<lparr>frames := frames w4 @ [frame]\<rparr>))"

text \<open>
  \<open>loop\<close> at wall-clock time \<open>now\<close>. What \<open>update\<close> or \<open>render\<close> throws leaves \<open>loop\<close> at
  once: the time stamp of the activity is not set and the next frame is not requested.
\<close>

definition loop ::
  "runtime \<Rightarrow> timings \<Rightarrow> ('x world \<Rightarrow> 'x world) \<Rightarrow> int \<Rightarrow> 'x game_loop \<Rightarrow> 'x world
   \<Rightarrow> thrown option \<times> 'x game_loop \<times> 'x world" where
  "loop rt tm cleanup now gl w =
     (if \<not> running gl then (None, gl, w)
      else
        let updateDelta = now - lastUpdate gl;
            renderDelta = now - lastRender gl;
            autosaveDelta = now - lastAutosave gl;
            cleanupDelta = now - lastCleanup gl
        in case (if updateDelta > 0 then update rt tm gl updateDelta w else (None, w)) of
             (Some t, w1) \<Rightarrow> (Some t, gl, w1)
           | (None, w1) \<Rightarrow>
               let gl1 = (if updateDelta > 0 then gl\<lparr>lastUpdate := now\<rparr> else gl)
               in case (if renderDelta \<ge> DISPLAY_UPDATE_INTERVAL then render tm gl1 w1
                        else (None, w1)) of
                    (Some t, w2) \<Rightarrow> (Some t, gl1, w2)
                  | (None, w2) \<Rightarrow>
                      let gl2 = (if renderDelta \<ge> DISPLAY_UPDATE_INTERVAL
                                 then gl1\<lparr>lastRender := now\<rparr> else gl1)
                      in case loop_tail rt cleanup now autosaveDelta cleanupDelta gl2 w2 of
                           (gl', w') \<Rightarrow> (None, gl', w'))"

section \<open>DOMBatcher\<close>

text \<open>
  The visual surface: elements by id, each with its text, its inline style (\<open>display\<close> is
  one of the style properties) and its class list.
\<close>

record element =
  textContent :: string
  style :: "(string \<times> string) list"
  classList :: "string list"

text \<open>The payload of \<open>updateClasses\<close>: \<open>{add: [...], remove: [...]}\<close>, either part optional.\<close>

record class_change =
  add :: "string list option"
  remove :: "string list option"

text \<open>
  \<open>pendingUpdates\<close>, \<open>pendingStyles\<close> and \<open>pendingClasses\<close> are Maps from element id to
  closure. A closure is held as what it closes over: the element id and the payload of
  the call that made it (for \<open>pendingUpdates\<close>, the text of \<open>updateText\<close>; \<open>updateHTML\<close> is
  left out). \<open>pendingVisibility\<close> is a Set of the strings \<open>JSON.stringify({elementId,
  visible})\<close>, held as the pairs those strings encode. \<open>document\<close> is the page the
  batcher writes to; the element cache holds the ids it has resolved. \<open>styleSet\<close> is the
  page's answer to \<open>element.style[k] = v\<close> as \<open>Object.assign\<close> performs it: the new inline
  style, or the exception of a property that cannot be written.
\<close>

type_synonym text_closure = "string \<times> string"

type_synonym style_closure = "string \<times> (string \<times> string) list"

type_synonym class_closure = "string \<times> class_change"

record dom_batcher =
  pendingUpdates :: "(string \<times> text_closure) list"
  pendingStyles :: "(string \<times> style_closure) list"
  pendingClasses :: "(string \<times> class_closure) list"
  pendingVisibility :: "(string \<times> bool) list"
  frameId :: "nat option"
  enabled :: bool
  elementCache :: "string list"
  cacheHits :: nat
  cacheMisses :: nat
  document :: "(string \<times> element) list"
  requested :: nat
  batcherLog :: "log_entry list"
  styleSet :: "string \<Rightarrow> string \<Rightarrow> (string \<times> string) list \<Rightarrow> exn + (string \<times> string) list"

text \<open>
  A style object that stores what it is given, except under the names it keeps
  read-only: \<open>length\<close>, \<open>parentRule\<close> and the indices.
\<close>

definition css_set :: "string \<Rightarrow> string \<Rightarrow> (string \<times> string) list \<Rightarrow> exn + (string \<times> string) list" where
  "css_set k v st =
     (if k = ''length'' \<or> k = ''parentRule'' \<or> parse_index k \<noteq> None then Inl TypeError
      else Inr (obj_put k v st))"

text \<open>The constructor, on a page with such style objects.\<close>

definition new_DOMBatcher :: "(string \<times> element) list \<Rightarrow> dom_batcher" where
  "new_DOMBatcher doc =
     \<lparr>pendingUpdates = [], pendingStyles = [], pendingClasses = [], pendingVisibility = [],
      frameId = None, enabled = True, elementCache = [], cacheHits = 0, cacheMisses = 0,
      document = doc, requested = 0, batcherLog = [], styleSet = css_set\<rparr>"

text \<open>
  \<open>getElement\<close>: a cached element still on the page is a hit; otherwise the page is asked,
  and an element found is cached and counted as a miss.
\<close>

definition getElement :: "string \<Rightarrow> dom_batcher \<Rightarrow> element option \<times> dom_batcher" where
  "getElement elementId b =
     (if elementId \<notin> set (elementCache b) \<or> map_of (document b) elementId = None
      then (case map_of (document b) elementId of
              None \<Rightarrow> (None, b)
            | Some el \<Rightarrow>
                (Some el, b\<lparr>elementCache := (if elementId \<in> set (elementCache b) then elementCache b
                                               else elementCache b @ [elementId]),
                            cacheMisses := cacheMisses b + 1\<rparr>))
      else (map_of (document b) elementId, b\<lparr>cacheHits := cacheHits b + 1\<rparr>))"

definition write_element :: "string \<Rightarrow> element \<Rightarrow> dom_batcher \<Rightarrow> dom_batcher" where
  "write_element elementId el b = b\<lparr>document := obj_put elementId el (document b)\<rparr>"

text \<open>
  \<open>classList.add\<close> and \<open>classList.remove\<close> check every token before they change the
  list: an empty token is a SyntaxError, one with white space an InvalidCharacterError.
\<close>

definition token_error :: "string \<Rightarrow> exn option" where
  "token_error t =
     (if t = [] then Some SyntaxError
      else if \<exists>c \<in> set t. c \<in> set [CHR '' '', CHR 0x09, CHR 0x0A, CHR 0x0C, CHR 0x0D]
      then Some InvalidCharacterError
      else None)"

fun tokens_error :: "string list \<Rightarrow> exn option" where
  "tokens_error [] = None"
| "tokens_error (t # ts) = (case token_error t of Some e \<Rightarrow> Some e | None \<Rightarrow> tokens_error ts)"

definition classList_add :: "string list \<Rightarrow> string list \<Rightarrow> exn + string list" where
  "classList_add tokens cl =
     (case tokens_error tokens of
        Some e \<Rightarrow> Inl e
      | None \<Rightarrow> Inr (fold (\<lambda>t acc. if t \<in> set acc then acc else acc @ [t]) tokens cl))"

definition classList_remove :: "string list \<Rightarrow> string list \<Rightarrow> exn + string list" where
  "classList_remove tokens cl =
     (case tokens_error tokens of
        Some e \<Rightarrow> Inl e
      | None \<Rightarrow> Inr (filter (\<lambda>c. c \<notin> set tokens) cl))"

text \<open>The body of the \<open>updateClasses\<close> closure on a found element.\<close>

definition apply_classes :: "class_change \<Rightarrow> element \<Rightarrow> exn option \<times> element" where
  "apply_classes classes el =
     (case (case add classes of
              None \<Rightarrow> Inr (classList el)
            | Some ts \<Rightarrow> classList_add ts (classList el)) of
        Inl e \<Rightarrow> (Some e, el)
      | Inr cl1 \<Rightarrow>
          (case (case remove classes of
                   None \<Rightarrow> Inr cl1
                 | Some ts \<Rightarrow> classList_remove ts cl1) of
             Inl e \<Rightarrow> (Some e, el\<lparr>classList := cl1\<rparr>)
           | Inr cl2 \<Rightarrow> (None, el\<lparr>classList := cl2\<rparr>)))"

text \<open>
  Running one stored closure: what it throws (if anything) and the batcher it leaves.
\<close>

fun run_text :: "text_closure \<Rightarrow> dom_batcher \<Rightarrow> exn option \<times> dom_batcher" where
  "run_text (elementId, text) b =
     (case getElement elementId b of
        (None, b') \<Rightarrow> (None, b')
      | (Some el, b') \<Rightarrow>
          (if textContent el \<noteq> text
           then (None, write_element elementId (el\<lparr>textContent := text\<rparr>) b')
           else (None, b')))"

fun assign_styles ::
  "(string \<Rightarrow> string \<Rightarrow> (string \<times> string) list \<Rightarrow> exn + (string \<times> string) list)
   \<Rightarrow> (string \<times> string) list \<Rightarrow> (string \<times> string) list \<Rightarrow> exn option \<times> (string \<times> string) list" where
  "assign_styles host [] st = (None, st)"
| "assign_styles host ((k, v) # kvs) st =
     (case host k v st of
        Inl e \<Rightarrow> (Some e, st)
      | Inr st' \<Rightarrow> assign_styles host kvs st')"

fun run_style :: "style_closure \<Rightarrow> dom_batcher \<Rightarrow> exn option \<times> dom_batcher" where
  "run_style (elementId, styles) b =
     (case getElement elementId b of
        (None, b') \<Rightarrow> (None, b')
      | (Some el, b') \<Rightarrow>
          (case assign_styles (styleSet b') styles (style el) of
             (e, st) \<Rightarrow> (e, write_element elementId (el\<lparr>style := st\<rparr>) b')))"

fun run_class :: "class_closure \<Rightarrow> dom_batcher \<Rightarrow> exn option \<times> dom_batcher" where
  "run_class (elementId, classes) b =
     (case getElement elementId b of
        (None, b') \<Rightarrow> (None, b')
      | (Some el, b') \<Rightarrow>
          (case apply_classes classes el of
             (e, el') \<Rightarrow> (e, write_element elementId el' b')))"

text \<open>\<open>scheduleUpdate\<close>: request a frame unless one is already requested.\<close>

definition scheduleUpdate :: "dom_batcher \<Rightarrow> dom_batcher" where
  "scheduleUpdate b =
     (if frameId b \<noteq> None then b
      else b\<lparr>frameId := Some (Suc (requested b)), requested := Suc (requested b)\<rparr>)"

text \<open>
  The four queueing methods. With batching disabled they write at once (an exception of
  the write goes to the caller); with batching enabled they store under the element id.
  \<open>Map.set\<close> keeps the position of a key already present; \<open>Set.add\<close> of a string already
  present changes nothing.
\<close>

definition updateText :: "string \<Rightarrow> string \<Rightarrow> dom_batcher \<Rightarrow> exn option \<times> dom_batcher" where
  "updateText elementId text b =
     (if \<not> enabled b then run_text (elementId, text) b
      else (None, scheduleUpdate
                    (b\<lparr>pendingUpdates :=
                         obj_put elementId (elementId, text) (pendingUpdates b)\<rparr>)))"

definition updateStyles ::
  "string \<Rightarrow> (string \<times> string) list \<Rightarrow> dom_batcher \<Rightarrow> exn option \<times> dom_batcher" where
  "updateStyles elementId styles b =
     (if \<not> enabled b then run_style (elementId, styles) b
      else (None, scheduleUpdate
                    (b\<lparr>pendingStyles :=
                         obj_put elementId (elementId, styles) (pendingStyles b)\<rparr>)))"

definition updateClasses :: "string \<Rightarrow> class_change \<Rightarrow> dom_batcher \<Rightarrow> exn option \<times> dom_batcher" where
  "updateClasses elementId classes b =
     (if \<not> enabled b then run_class (elementId, classes) b
      else (None, scheduleUpdate
                    (b\<lparr>pendingClasses :=
                         obj_put elementId (elementId, classes) (pendingClasses b)\<rparr>)))"

text \<open>\<open>element.style.display = visible ? '' : 'none'\<close> on the element, if it is found.\<close>

definition set_display :: "string \<Rightarrow> bool \<Rightarrow> dom_batcher \<Rightarrow> dom_batcher" where
  "set_display elementId visible b =
     (case getElement elementId b of
        (None, b') \<Rightarrow> b'
      | (Some el, b') \<Rightarrow>
          write_element elementId
            (el\<lparr>style := obj_put ''display'' (if visible then [] else ''none'') (style el)\<rparr>) b')"

definition updateVisibility :: "string \<Rightarrow> bool \<Rightarrow> dom_batcher \<Rightarrow> exn option \<times> dom_batcher" where
  "updateVisibility elementId visible b =
     (if \<not> enabled b then (None, set_display elementId visible b)
      else (None, scheduleUpdate
                    (b\<lparr>pendingVisibility :=
                         (if (elementId, visible) \<in> set (pendingVisibility b) then pendingVisibility b
                          else pendingVisibility b @ [(elementId, visible)])\<rparr>)))"

text \<open>
  The loops of \<open>flush\<close>. An exception ends the loop it is thrown in, with the writes made
  so far in place.
\<close>

fun run_visibility :: "(string \<times> bool) list \<Rightarrow> dom_batcher \<Rightarrow> dom_batcher" where
  "run_visibility [] b = b"
| "run_visibility ((elementId, visible) # ds) b = run_visibility ds (set_display elementId visible b)"

fun run_closures ::
  "('c \<Rightarrow> dom_batcher \<Rightarrow> exn option \<times> dom_batcher) \<Rightarrow> 'c list \<Rightarrow> dom_batcher
   \<Rightarrow> exn option \<times> dom_batcher" where
  "run_closures run [] b = (None, b)"
| "run_closures run (c # cs) b =
     (case run c b of
        (Some e, b') \<Rightarrow> (Some e, b')
      | (None, b') \<Rightarrow> run_closures run cs b')"

definition flush_catch :: "exn \<Rightarrow> dom_batcher \<Rightarrow> dom_batcher" where
  "flush_catch e b =
     b\<lparr>batcherLog := handleError (error_of e) ''domBatcher.flush'' None None (batcherLog b)\<rparr>"

text \<open>The first stage of \<open>flush\<close>: the frame id is reset and the visibility Set is run and cleared.\<close>

definition flush_visibility :: "dom_batcher \<Rightarrow> dom_batcher" where
  "flush_visibility b =
     (run_visibility (pendingVisibility b) (b\<lparr>frameId := None\<rparr>))\<lparr>pendingVisibility := []\<rparr>"

text \<open>
  \<open>flush\<close>: one try block holds the four loops and the four \<open>clear()\<close> calls, in the order
  visibility, styles, classes, content; one catch block hands the exception to
  \<open>handleError\<close>.
\<close>

definition flush :: "dom_batcher \<Rightarrow> dom_batcher" where
  "flush b =
     (let b1 = flush_visibility b
      in case run_closures run_style (map snd (pendingStyles b1)) b1 of
           (Some e, b2) \<Rightarrow> flush_catch e b2
         | (None, b2) \<Rightarrow>
             (case run_closures run_class (map snd (pendingClasses b2)) (b2\<lparr>pendingStyles := []\<rparr>) of
                (Some e, b3) \<Rightarrow> flush_catch e b3
              | (None, b3) \<Rightarrow>
                  (case run_closures run_text (map snd (pendingUpdates b3)) (b3\<lparr>pendingClasses := []\<rparr>) of
                     (Some e, b4) \<Rightarrow> flush_catch e b4
                   | (None, b4) \<Rightarrow> b4\<lparr>pendingUpdates := []\<rparr>)))"

text \<open>
  The batcher after the first two stages of \<open>flush\<close>, when the styles stage has not thrown:
  the visibility Set and the style closures have been run and their collections cleared.
\<close>

definition styles_flushed :: "dom_batcher \<Rightarrow> dom_batcher" where
  "styles_flushed b =
     (snd (run_closures run_style (map snd (pendingStyles b)) (flush_visibility b)))\<lparr>pendingStyles := []\<rparr>"

text \<open>What the page shows for an element.\<close>

definition element_of :: "dom_batcher \<Rightarrow> string \<Rightarrow> element option" where
  "element_of b elementId = map_of (document b) elementId"

definition text_of :: "dom_batcher \<Rightarrow> string \<Rightarrow> string option" where
  "text_of b elementId = map_option textContent (map_of (document b) elementId)"

definition display_of :: "dom_batcher \<Rightarrow> string \<Rightarrow> string option" where
  "display_of b elementId =
     (case map_of (document b) elementId of
        None \<Rightarrow> None
      | Some el \<Rightarrow> map_of (style el) ''display'')"

text \<open>What a class mutation throws on a found element: the first bad token decides.\<close>

definition class_change_error :: "class_change \<Rightarrow> exn option" where
  "class_change_error c =
     (case (case add c of None \<Rightarrow> None | Some ts \<Rightarrow> tokens_error ts) of
        Some e \<Rightarrow> Some e
      | None \<Rightarrow> (case remove c of None \<Rightarrow> None | Some ts \<Rightarrow> tokens_error ts))"

text \<open>
  A step of the batcher is quiet when it leaves the pending collections, the log, the
  style host and the text of every element as they were.
\<close>

definition quiet :: "dom_batcher \<Rightarrow> dom_batcher \<Rightarrow> bool" where
  "quiet b b' \<longleftrightarrow>
     pendingUpdates b' = pendingUpdates b \<and> pendingStyles b' = pendingStyles b
     \<and> pendingClasses b' = pendingClasses b \<and> pendingVisibility b' = pendingVisibility b
     \<and> batcherLog b' = batcherLog b \<and> styleSet b' = styleSet b
     \<and> (\<forall>j. map_option textContent (map_of (document b') j)
              = map_option textContent (map_of (document b) j))"

section \<open>PhaseManager\<close>

text \<open>
  A module as \<open>import()\<close> delivers it: its identity, and whether its default export has an
  \<open>init\<close> function. The host says what \<open>import()\<close> of a file gives (\<open>None\<close>: the promise
  rejects) and whether a module's \<open>init\<close> throws. The manager keeps the Map of loaded
  modules; the imports and \<open>init\<close> calls it performs are recorded in the order they happen.
\<close>

record js_module =
  module_id :: nat
  has_init :: bool

record loader_host =
  import_file :: "string \<Rightarrow> js_module option"
  init_throws :: "js_module \<Rightarrow> bool"

datatype acquisition = Import string | Init nat

record phase_manager =
  loadedModules :: "(string \<times> js_module) list"
  performed :: "acquisition list"
  managerLog :: "log_entry list"

text \<open>The \<open>switch\<close> of \<open>loadModule\<close>: the file of a module name, if it has a case.\<close>

definition module_file :: "string \<Rightarrow> string option" where
  "module_file moduleName =
     (if moduleName = ''combat'' then Some ''../systems/combat.js''
      else if moduleName = ''swarm'' then Some ''../systems/swarm.js''
      else if moduleName = ''exploration'' then Some ''../systems/exploration.js''
      else None)"

definition load_failed :: "phase_manager \<Rightarrow> phase_manager" where
  "load_failed pm =
     pm\<lparr>managerLog := handleError \<lparr>err_name = ''Error'', err_message = []\<rparr>
                          ''phaseManager.loadModule'' None None (managerLog pm)\<rparr>"

text \<open>
  \<open>loadModule\<close>, with each \<open>await\<close> run to completion before the next step. The result is
  the module returned (\<open>None\<close> for \<open>null\<close>) and the manager afterwards.
\<close>

definition loadModule ::
  "loader_host \<Rightarrow> string \<Rightarrow> phase_manager \<Rightarrow> js_module option \<times> phase_manager" where
  "loadModule host moduleName pm =
     (case map_of (loadedModules pm) moduleName of
        Some m \<Rightarrow> (Some m, pm)
      | None \<Rightarrow>
          (let pm1 = pm\<lparr>managerLog := log_push (plain_entry ''debug''
                                          (''Lazy loading module: '' @ moduleName)) (managerLog pm)\<rparr>
           in case module_file moduleName of
                None \<Rightarrow> (None, pm1)
              | Some file \<Rightarrow>
                  (let pm2 = pm1\<lparr>performed := performed pm1 @ [Import file]\<rparr>
                   in case import_file host file of
                        None \<Rightarrow> (None, load_failed pm2)
                      | Some m \<Rightarrow>
                          (let pm3 = (if has_init m
                                      then pm2\<lparr>performed := performed pm2 @ [Init (module_id m)]\<rparr>
                                      else pm2)
                           in if has_init m \<and> init_throws host m then (None, load_failed pm3)
                              else (Some m,
                                    pm3\<lparr>loadedModules := obj_put moduleName m (loadedModules pm3),
                                        managerLog := log_push (plain_entry ''debug''
                                           (''Successfully loaded module: '' @ moduleName))
                                           (managerLog pm3)\<rparr>)))))"

text \<open>Two calls in sequence: the second starts when the first has returned.\<close>

definition loadModule_twice ::
  "loader_host \<Rightarrow> string \<Rightarrow> phase_manager \<Rightarrow> js_module option \<times> js_module option \<times> phase_manager" where
  "loadModule_twice host moduleName pm =
     (case loadModule host moduleName pm of
        (r1, pm1) \<Rightarrow> (case loadModule host moduleName pm1 of (r2, pm2) \<Rightarrow> (r1, r2, pm2)))"

section \<open>Scenarios\<close>

text \<open>A host on which nothing parses and storage accepts every text.\<close>

definition plain_runtime :: runtime where
  "plain_runtime =
     \<lparr>to_number_ext = (\<lambda>v. NaN), plus_ext = (\<lambda>v a. v), json_parse = (\<lambda>s. None),
      json_stringify = (\<lambda>v. ''{}''), atob = (\<lambda>s. None), date_now = 0,
      storage_accepts = (\<lambda>s. True)\<rparr>"

text \<open>
  The scheduler scenario of the specification: one update handler that throws, and one
  registered after it that counts its calls. The handler throws an \<open>Error\<close> in
  \<open>scenario_loop\<close> and \<open>null\<close> in \<open>null_loop\<close>; the clock measures nothing slow.
\<close>

definition boom :: js_error where
  "boom = \<lparr>err_name = ''Error'', err_message = ''boom''\<rparr>"

definition thrower :: "nat update_handler" where
  "thrower = \<lparr>uname = ''broken'', urun = (\<lambda>d w. Threw (ThrownValue boom) w)\<rparr>"

definition counter :: "nat update_handler" where
  "counter = \<lparr>uname = ''count'', urun = (\<lambda>d w. Returned (w\<lparr>ext := ext w + 1\<rparr>))\<rparr>"

definition nuller :: "nat update_handler" where
  "nuller = \<lparr>uname = ''broken'', urun = (\<lambda>d w. Threw ThrownNull w)\<rparr>"

definition on_time :: timings where
  "on_time = \<lparr>slow_update = None, slow_render = None\<rparr>"

definition null_loop :: "nat game_loop" where
  "null_loop =
     \<lparr>running = True, lastUpdate = 1000, lastRender = 1000, lastAutosave = 1000,
      lastCleanup = 1000, updateHandlers = [nuller, counter], renderHandlers = [],
      animationFrameId = None, cleanupInterval = 60000\<rparr>"

definition scenario_loop :: "nat game_loop" where
  "scenario_loop =
     \<lparr>running = True, lastUpdate = 1000, lastRender = 1000, lastAutosave = 1000,
      lastCleanup = 1000, updateHandlers = [thrower, counter], renderHandlers = [],
      animationFrameId = None, cleanupInterval = 60000\<rparr>"

definition scenario_world :: "nat world" where
  "scenario_world =
     \<lparr>gameState = new_GameState, localStorage = None, errorLog = [], frames = [], ext = 0\<rparr>"

text \<open>
  The batcher scenarios: a page with one element \<open>a\<close>; and a batcher on it with a class
  mutation whose token is empty queued before a text mutation.
\<close>

definition page0 :: "(string \<times> element) list" where
  "page0 = [(''a'', \<lparr>textContent = ''old'', style = [], classList = []\<rparr>)]"

definition stuck_batcher :: dom_batcher where
  "stuck_batcher =
     snd (updateText ''a'' ''new''
       (snd (updateClasses ''a'' \<lparr>add = Some [[]], remove = None\<rparr> (new_DOMBatcher page0))))"

text \<open>
  A page with two elements, and two batchers on it. On \<open>busy_batcher\<close> a visibility, a
  style, two class and a text mutation are queued, and the second class mutation has an
  empty token. On \<open>readonly_batcher\<close> the first of two style mutations writes the
  read-only \<open>length\<close> of the style object after a colour; a class and a text mutation are
  queued behind them.
\<close>

definition page2 :: "(string \<times> element) list" where
  "page2 = [(''a'', \<lparr>textContent = ''old'', style = [], classList = []\<rparr>),
            (''b'', \<lparr>textContent = ''old'', style = [], classList = []\<rparr>)]"

definition busy_batcher :: dom_batcher where
  "busy_batcher =
     snd (updateText ''a'' ''new''
       (snd (updateClasses ''b'' \<lparr>add = Some [[]], remove = None\<rparr>
         (snd (updateClasses ''a'' \<lparr>add = Some [''on''], remove = None\<rparr>
           (snd (updateStyles ''a'' [(''color'', ''red'')]
             (snd (updateVisibility ''a'' False (new_DOMBatcher page2))))))))))"

definition readonly_batcher :: dom_batcher where
  "readonly_batcher =
     snd (updateText ''a'' ''new''
       (snd (updateClasses ''a'' \<lparr>add = Some [''on''], remove = None\<rparr>
         (snd (updateStyles ''b'' [(''color'', ''red'')]
           (snd (updateStyles ''a'' [(''color'', ''red''), (''length'', ''5'')]
             (new_DOMBatcher page2))))))))"


text \<open>
  The persistence scenarios: a host that parses two save texts, one with the version 0
  and one with the version \<open>2.0.0\<close>, and decodes one base64 text, to \<open>not json\<close>.
\<close>

definition text_v0 :: string where
  \<open>text_v0 = ''{"version":0,"state":{"resources":{"clips":5}}}''\<close>

definition text_ok :: string where
  \<open>text_ok = ''{"version":"2.0.0","state":{"resources":{"clips":5}}}''\<close>

definition saved_clips :: jsval where
  "saved_clips = Obj [(''resources'', Obj [(''clips'', num 5)])]"

definition save_runtime :: runtime where
  "save_runtime =
     \<lparr>to_number_ext = (\<lambda>v. NaN), plus_ext = (\<lambda>v a. v),
      json_parse = (\<lambda>s. if s = text_v0
                            then Some (Obj [(''version'', num 0), (''state'', saved_clips)])
                          else if s = text_ok
                            then Some (Obj [(''version'', Str ''2.0.0''), (''state'', saved_clips)])
                          else None),
      json_stringify = (\<lambda>v. ''{}''),
      atob = (\<lambda>s. if s = ''bm90IGpzb24='' then Some ''not json'' else None),
      date_now = 0, storage_accepts = (\<lambda>s. True)\<rparr>"



text \<open>
  The loader scenarios: a new manager; the swarm module, whose default export has an
  \<open>init\<close>; a host on which that \<open>init\<close> returns, and one on which it throws.
\<close>

definition new_PhaseManager :: phase_manager where
  "new_PhaseManager = \<lparr>loadedModules = [], performed = [], managerLog = []\<rparr>"

definition swarm_module :: js_module where
  "swarm_module = \<lparr>module_id = 1, has_init = True\<rparr>"

definition good_host :: loader_host where
  "good_host =
     \<lparr>import_file = (\<lambda>f. if f = ''../systems/swarm.js'' then Some swarm_module else None),
      init_throws = (\<lambda>m. False)\<rparr>"

definition failing_host :: loader_host where
  "failing_host =
     \<lparr>import_file = (\<lambda>f. if f = ''../systems/swarm.js'' then Some swarm_module else None),
      init_throws = (\<lambda>m. True)\<rparr>"

section \<open>Properties\<close>

lemma split_dot_example: "split_dot ''meta.transaction.id'' = [''meta'', ''transaction'', ''id'']"
  by simp

text \<open>
  C2 (the code departs from the claim). The path \<open>meta.transaction.id\<close> has never been
  written on a new store. Its first two keys resolve to the default \<open>null\<close> of
  \<open>meta.transaction\<close>, which is not \<open>undefined\<close>, so the loop goes on and reads a property of
  \<open>null\<close>: \<open>get\<close> throws a TypeError instead of returning \<open>undefined\<close>.
\<close>

theorem get_null_intermediate_throws:
  "get new_GameState ''meta.transaction.id'' = Inl TypeError"
  by (simp add: get_def new_GameState_def default_meta_def obj_get_def)

text \<open>Where no key on the way resolves to \<open>null\<close>, a path never written reads as \<open>undefined\<close>.\<close>

lemma get_absent_examples:
  "get new_GameState ''invalid.path'' = Inr Undefined"
  "get new_GameState ''resources.invalid'' = Inr Undefined"
  "get new_GameState ''resources.wire.unit'' = Inr Undefined"
  by (simp_all add: get_def new_GameState_def default_resources_def obj_get_def num_def)

subsection \<open>Reading back what set wrote\<close>



lemma map_of_obj_put: "map_of (obj_put k v fs) = (map_of fs)(k \<mapsto> v)"
  by (induction fs) auto










subsection \<open>The update activity\<close>

lemma run_update_handlers_append:
  "run_update_handlers (xs @ ys) d w =
     (case run_update_handlers xs d w of
        (None, w') \<Rightarrow> run_update_handlers ys d w'
      | (Some t, w') \<Rightarrow> (Some t, w'))"
  by (induction xs arbitrary: w) (auto split: outcome.splits sum.splits)

lemma run_render_handlers_append:
  "run_render_handlers (xs @ ys) w =
     (case run_render_handlers xs w of
        (None, w') \<Rightarrow> run_render_handlers ys w'
      | (Some t, w') \<Rightarrow> (Some t, w'))"
  by (induction xs arbitrary: w) (auto split: outcome.splits sum.splits)

lemma scenario_tick: "increment plain_runtime new_GameState ''ui.ticks'' (Fin 1) = (None, obj_put ''ui'' (Obj (obj_put ''ticks'' (num 1) (the_fields default_ui))) new_GameState, [])"
  by (simp add: increment_def get_def set_path_def set_ref_def new_GameState_def default_ui_def
        obj_get_def num_def js_or_def notifyObservers_def map_get_def own_write_def strict_neq_def
        shadowed_def plain_runtime_def)

text \<open>
  What the try/catch around each handler does isolate: a handler that throws a value
  \<open>handleError\<close> can read. The error is logged with the handler's name and the delta, and
  the handlers after it run on the world the throwing handler left. In the scenario of
  the specification (an \<open>Error\<close> is thrown, then a counter runs) the iteration ends with
  the counter at 1, the error logged and the next frame requested.
\<close>

lemma update_isolates_error_objects:
  assumes "fst (increment rt (gameState w) ''ui.ticks'' (Fin 1)) = None"
    and "updateHandlers gl = pre @ h # post"
    and "run_update_handlers pre d
           (w\<lparr>gameState := fst (snd (increment rt (gameState w) ''ui.ticks'' (Fin 1)))\<rparr>) = (None, w1)"
    and "urun h d w1 = Threw (ThrownValue err) w2"
  shows "update rt tm gl d w =
           measured ''update'' (slow_update tm)
             (run_update_handlers post d
                (w2\<lparr>errorLog := handleError err ''gameLoop.update''
                       (Some (handler_name (uname h))) (Some d) (errorLog w2)\<rparr>))"
proof -
  obtain gs cs where inc: "increment rt (gameState w) ''ui.ticks'' (Fin 1) = (None, gs, cs)"
    using assms(1) by (cases "increment rt (gameState w) ''ui.ticks'' (Fin 1)") auto
  with assms(2,3,4) show ?thesis
    by (simp add: update_def run_update_handlers_append)
qed

lemma loop_after_update:
  assumes "running gl" "lastUpdate gl < now" "now - lastRender gl < DISPLAY_UPDATE_INTERVAL"
    and "update rt tm gl (now - lastUpdate gl) w = (None, w1)"
  shows "loop rt tm cleanup now gl w =
           (case loop_tail rt cleanup now (now - lastAutosave gl) (now - lastCleanup gl)
                   (gl\<lparr>lastUpdate := now\<rparr>) w1 of
              (gl', w') \<Rightarrow> (None, gl', w'))"
  using assms by (simp add: loop_def Let_def)

lemma loop_tail_requests_frame:
  "animationFrameId (fst (loop_tail rt cleanup now a c gl w)) = Some (length (frames (snd (loop_tail rt cleanup now a c gl w))) - 1)
   \<and> frames (snd (loop_tail rt cleanup now a c gl w)) \<noteq> []"
  by (simp add: loop_tail_def Let_def)

lemma scenario_isolation:
  "loop plain_runtime on_time id 1005 scenario_loop scenario_world =
     (None,
      scenario_loop\<lparr>lastUpdate := 1005, animationFrameId := Some 0\<rparr>,
      scenario_world
        \<lparr>gameState := obj_put ''ui'' (Obj (obj_put ''ticks'' (num 1) (the_fields default_ui))) new_GameState,
         errorLog := handleError boom ''gameLoop.update'' (Some ''broken'') (Some 5) [],
         frames := [0], ext := 1\<rparr>)"
  by (simp add: loop_def Let_def update_def measured_def on_time_def scenario_loop_def scenario_world_def
        scenario_tick thrower_def counter_def handler_name_def loop_tail_def
        DISPLAY_UPDATE_INTERVAL_def AUTOSAVE_INTERVAL_def)

text \<open>
  What it does not isolate: a handler that throws \<open>null\<close> or \<open>undefined\<close>. The catch
  block itself throws a TypeError, which ends the \<open>for\<close> loop: the handlers after it do
  not run, and \<open>measure\<close> logs the TypeError and throws it on.
\<close>

lemma update_stops_at_null:
  assumes "fst (increment rt (gameState w) ''ui.ticks'' (Fin 1)) = None"
    and "updateHandlers gl = pre @ h # post"
    and "run_update_handlers pre d
           (w\<lparr>gameState := fst (snd (increment rt (gameState w) ''ui.ticks'' (Fin 1)))\<rparr>) = (None, w1)"
    and "urun h d w1 = Threw t w2" and "t = ThrownNull \<or> t = ThrownUndefined"
  shows "update rt tm gl d w =
           (Some (ThrownValue (error_of TypeError)),
            w2\<lparr>errorLog := handleError (error_of TypeError) ''performanceMonitor.measure.update''
                              None None (errorLog w2)\<rparr>)"
proof -
  obtain gs cs where inc: "increment rt (gameState w) ''ui.ticks'' (Fin 1) = (None, gs, cs)"
    using assms(1) by (cases "increment rt (gameState w) ''ui.ticks'' (Fin 1)") auto
  with assms(2,3,4,5) show ?thesis
    by (auto simp: update_def run_update_handlers_append measured_def)
qed

text \<open>
  C1 (the code departs from the claim). Two update handlers are registered: one that
  throws \<open>null\<close>, and after it one that counts its calls. In an iteration of the running
  loop in which time has passed, the catch block around the first handler reads
  \<open>error.message\<close> of \<open>null\<close> and throws a TypeError. \<open>update\<close> throws it on: the counter
  has not run, and \<open>loop\<close> is left before it requests the next frame, so the scheduler
  does not go on to a next iteration.
\<close>

theorem update_handler_null_escapes:
  "update plain_runtime on_time null_loop 5 scenario_world =
     (Some (ThrownValue (error_of TypeError)),
      scenario_world
        \<lparr>gameState := obj_put ''ui'' (Obj (obj_put ''ticks'' (num 1) (the_fields default_ui))) new_GameState,
         errorLog := handleError (error_of TypeError) ''performanceMonitor.measure.update'' None None []\<rparr>)
   \<and> ext (snd (update plain_runtime on_time null_loop 5 scenario_world)) = 0
   \<and> fst (loop plain_runtime on_time id 1005 null_loop scenario_world)
       = Some (ThrownValue (error_of TypeError))
   \<and> frames (snd (snd (loop plain_runtime on_time id 1005 null_loop scenario_world))) = []
   \<and> animationFrameId (fst (snd (loop plain_runtime on_time id 1005 null_loop scenario_world))) = None
   \<and> ext (snd (snd (loop plain_runtime on_time id 1005 null_loop scenario_world))) = 0"
  by (simp add: loop_def Let_def update_def measured_def on_time_def null_loop_def scenario_world_def
        scenario_tick nuller_def counter_def handler_name_def)

subsection \<open>The batcher\<close>

lemma obj_put_twice: "obj_put k v2 (obj_put k v1 fs) = obj_put k v2 fs"
  by (induction fs) auto

text \<open>
  The three Maps coalesce: queueing twice for one element leaves the batcher as queueing
  the second mutation alone does.
\<close>

lemma updateText_coalesces:
  "enabled b \<Longrightarrow> snd (updateText i t2 (snd (updateText i t1 b))) = snd (updateText i t2 b)"
  by (simp add: updateText_def scheduleUpdate_def obj_put_twice)

lemma updateStyles_coalesces:
  "enabled b \<Longrightarrow> snd (updateStyles i s2 (snd (updateStyles i s1 b))) = snd (updateStyles i s2 b)"
  by (simp add: updateStyles_def scheduleUpdate_def obj_put_twice)

lemma updateClasses_coalesces:
  "enabled b \<Longrightarrow> snd (updateClasses i c2 (snd (updateClasses i c1 b))) = snd (updateClasses i c2 b)"
  by (simp add: updateClasses_def scheduleUpdate_def obj_put_twice)

text \<open>
  C6 (the code departs from the claim). \<open>updateVisibility\<close> adds the encoded pair of
  element id and value to a Set, so two calls with different values for one element are
  both retained and both applied. After \<open>true\<close>, \<open>false\<close>, \<open>true\<close> the Set holds \<open>true\<close> before
  \<open>false\<close>, and the flush leaves the element hidden although the last call asked for it
  to be shown.
\<close>

theorem updateVisibility_keeps_both:
  "pendingVisibility (snd (updateVisibility ''a'' False (snd (updateVisibility ''a'' True (new_DOMBatcher page0)))))
     = [(''a'', True), (''a'', False)]
   \<and> display_of (flush (snd (updateVisibility ''a'' True (snd (updateVisibility ''a'' False
        (snd (updateVisibility ''a'' True (new_DOMBatcher page0)))))))) ''a'' = Some ''none''"
  by (simp add: updateVisibility_def new_DOMBatcher_def page0_def scheduleUpdate_def flush_def
      flush_visibility_def set_display_def getElement_def write_element_def display_of_def)

lemma quiet_refl: "quiet b b"
  by (simp add: quiet_def)

lemma quiet_trans: "quiet a b \<Longrightarrow> quiet b c \<Longrightarrow> quiet a c"
  by (simp add: quiet_def)

lemma getElement_fst: "fst (getElement i b) = map_of (document b) i"
  by (simp add: getElement_def split: option.splits)

lemma getElement_quiet: "quiet b (snd (getElement i b))"
  by (simp add: getElement_def quiet_def split: option.splits)

lemma getElement_document: "document (snd (getElement i b)) = document b"
  by (simp add: getElement_def split: option.splits)

lemma write_element_quiet:
  "map_of (document b) i = Some el \<Longrightarrow> textContent el' = textContent el \<Longrightarrow> quiet b (write_element i el' b)"
  by (auto simp: write_element_def quiet_def map_of_obj_put)

lemma set_display_quiet: "quiet b (set_display i v b)"
proof (cases "getElement i b")
  case (Pair r b')
  have q: "quiet b b'" and d: "document b' = document b" and r: "r = map_of (document b) i"
    using Pair getElement_quiet[of b i] getElement_document[of i b] getElement_fst[of i b] by auto
  show ?thesis
  proof (cases r)
    case None
    with Pair q show ?thesis by (simp add: set_display_def)
  next
    case (Some el)
    with r d have "map_of (document b') i = Some el" by simp
    from write_element_quiet[OF this, of "el\<lparr>style := obj_put ''display'' (if v then [] else ''none'') (style el)\<rparr>"]
    have "quiet b' (set_display i v b)" using Pair Some by (simp add: set_display_def)
    with q show ?thesis by (rule quiet_trans)
  qed
qed

lemma run_visibility_quiet: "quiet b (run_visibility ds b)"
proof (induction ds arbitrary: b)
  case Nil show ?case by (simp add: quiet_refl)
next
  case (Cons d ds)
  obtain i v where d: "d = (i, v)" by (cases d)
  from set_display_quiet[of b i v] Cons.IH[of "set_display i v b"] show ?case
    unfolding d by (auto intro: quiet_trans)
qed

lemma flush_visibility_keeps:
  "pendingStyles (flush_visibility b) = pendingStyles b
   \<and> pendingClasses (flush_visibility b) = pendingClasses b
   \<and> pendingUpdates (flush_visibility b) = pendingUpdates b
   \<and> pendingVisibility (flush_visibility b) = []
   \<and> batcherLog (flush_visibility b) = batcherLog b
   \<and> (\<forall>j. text_of (flush_visibility b) j = text_of b j)"
  using run_visibility_quiet[of "b\<lparr>frameId := None\<rparr>" "pendingVisibility b"]
  by (simp add: flush_visibility_def quiet_def text_of_def)

lemma run_style_quiet: "quiet b (snd (run_style c b))"
proof -
  obtain i st where c: "c = (i, st)" by (cases c)
  obtain r b' where g: "getElement i b = (r, b')" by (cases "getElement i b")
  have q: "quiet b b'" and d: "document b' = document b" and r: "r = map_of (document b) i"
    using g getElement_quiet[of b i] getElement_document[of i b] getElement_fst[of i b] by auto
  show ?thesis
  proof (cases r)
    case None
    with g q c show ?thesis by simp
  next
    case (Some el)
    with r d have m: "map_of (document b') i = Some el" by simp
    obtain e st' where a: "assign_styles (styleSet b') st (style el) = (e, st')"
      by (cases "assign_styles (styleSet b') st (style el)")
    from write_element_quiet[OF m, of "el\<lparr>style := st'\<rparr>"]
    have "quiet b' (snd (run_style c b))" using g Some c a by simp
    with q show ?thesis by (rule quiet_trans)
  qed
qed

lemma apply_classes_text: "textContent (snd (apply_classes c el)) = textContent el"
  by (auto simp: apply_classes_def split: option.splits sum.splits)

lemma run_class_quiet: "quiet b (snd (run_class c b))"
proof -
  obtain i cc where c: "c = (i, cc)" by (cases c)
  obtain r b' where g: "getElement i b = (r, b')" by (cases "getElement i b")
  have q: "quiet b b'" and d: "document b' = document b" and r: "r = map_of (document b) i"
    using g getElement_quiet[of b i] getElement_document[of i b] getElement_fst[of i b] by auto
  show ?thesis
  proof (cases r)
    case None
    with g q c show ?thesis by simp
  next
    case (Some el)
    obtain e el' where a: "apply_classes cc el = (e, el')" by (cases "apply_classes cc el")
    with apply_classes_text[of cc el] have t: "textContent el' = textContent el" by auto
    from Some r d have m: "map_of (document b') i = Some el" by simp
    from write_element_quiet[OF m t] q have "quiet b (write_element i el' b')" by (auto intro: quiet_trans)
    then show ?thesis using g Some a c by simp
  qed
qed

lemma run_closures_quiet:
  assumes "\<And>c b. quiet b (snd (run c b))"
  shows "quiet b (snd (run_closures run cs b))"
proof (induction cs arbitrary: b)
  case Nil show ?case by (simp add: quiet_refl)
next
  case (Cons c cs)
  obtain e b' where r: "run c b = (e, b')" by (cases "run c b")
  with assms[of b c] have q: "quiet b b'" by simp
  show ?case
  proof (cases e)
    case None
    with r q Cons.IH[of b'] show ?thesis by (auto intro: quiet_trans)
  next
    case (Some a)
    with r q show ?thesis by simp
  qed
qed

lemma run_closures_append:
  "run_closures run (pre @ c # post) b =
     (case run_closures run pre b of
        (Some e, b') \<Rightarrow> (Some e, b')
      | (None, b') \<Rightarrow>
          (case run c b' of
             (Some e, b'') \<Rightarrow> (Some e, b'')
           | (None, b'') \<Rightarrow> run_closures run post b''))"
  by (induction pre arbitrary: b) (auto split: prod.splits option.splits)

lemma run_closures_stops:
  assumes "fst (run_closures run pre b) = None"
    and "fst (run c (snd (run_closures run pre b))) = Some e"
  shows "run_closures run (pre @ c # post) b = (Some e, snd (run c (snd (run_closures run pre b))))"
  using assms by (auto simp: run_closures_append split: prod.splits option.splits)

lemma flush_catch_keeps:
  "quiet b b' \<Longrightarrow>
     pendingStyles (flush_catch e b') = pendingStyles b
     \<and> pendingClasses (flush_catch e b') = pendingClasses b
     \<and> pendingUpdates (flush_catch e b') = pendingUpdates b
     \<and> pendingVisibility (flush_catch e b') = pendingVisibility b
     \<and> (\<forall>j. text_of (flush_catch e b') j = text_of b j)"
  by (simp add: quiet_def flush_catch_def text_of_def)

lemma flush_fails_in_styles:
  assumes "map snd (pendingStyles b) = pre @ c # post"
    and "fst (run_closures run_style pre (flush_visibility b)) = None"
    and "fst (run_style c (snd (run_closures run_style pre (flush_visibility b)))) = Some e"
  shows "flush b = flush_catch e (snd (run_style c (snd (run_closures run_style pre (flush_visibility b)))))"
  using run_closures_stops[OF assms(2,3), of post] assms(1) flush_visibility_keeps[of b]
  by (simp add: flush_def Let_def)

lemma flush_fails_in_classes:
  assumes "fst (run_closures run_style (map snd (pendingStyles b)) (flush_visibility b)) = None"
    and "map snd (pendingClasses b) = pre @ c # post"
    and "fst (run_closures run_class pre (styles_flushed b)) = None"
    and "fst (run_class c (snd (run_closures run_class pre (styles_flushed b)))) = Some e"
  shows "flush b = flush_catch e (snd (run_class c (snd (run_closures run_class pre (styles_flushed b)))))"
proof -
  obtain b2 where s: "run_closures run_style (map snd (pendingStyles b)) (flush_visibility b) = (None, b2)"
    using assms(1) by (cases "run_closures run_style (map snd (pendingStyles b)) (flush_visibility b)") auto
  have "quiet (flush_visibility b) b2"
    using run_closures_quiet[of run_style "flush_visibility b" "map snd (pendingStyles b)"] s
    by (simp add: run_style_quiet)
  then have pc: "pendingClasses b2 = pendingClasses b"
    using flush_visibility_keeps[of b] by (simp add: quiet_def)
  have sf: "styles_flushed b = b2\<lparr>pendingStyles := []\<rparr>" using s by (simp add: styles_flushed_def)
  from run_closures_stops[OF assms(3,4), of post] assms(2) s pc sf flush_visibility_keeps[of b]
  show ?thesis by (simp add: flush_def Let_def)
qed

lemma styles_flushed_keeps:
  "pendingStyles (styles_flushed b) = []
   \<and> pendingClasses (styles_flushed b) = pendingClasses b
   \<and> pendingUpdates (styles_flushed b) = pendingUpdates b
   \<and> pendingVisibility (styles_flushed b) = []
   \<and> (\<forall>j. text_of (styles_flushed b) j = text_of b j)"
proof -
  have "quiet (flush_visibility b)
          (snd (run_closures run_style (map snd (pendingStyles b)) (flush_visibility b)))"
    by (intro run_closures_quiet run_style_quiet)
  with flush_visibility_keeps[of b] show ?thesis
    by (simp add: styles_flushed_def quiet_def text_of_def)
qed

lemma parse_index_color: "parse_index ''color'' = None" "parse_index ''length'' = None"
  by (simp_all add: parse_index_def)

text \<open>
  C7, as amended. \<open>flush\<close> has one try/catch around its four loops, so it stops at the
  first mutation that throws. Let the style closure \<open>c\<close> be the first to throw, after the
  visibility Set and the style closures \<open>pre\<close> queued before it. Then \<open>flush\<close> returns
  the batcher as those mutations and the part of \<open>c\<close> done before its exception left it,
  with the exception handed once to \<open>handleError\<close>: nothing queued after \<open>c\<close> is applied.
  The visibility Set is cleared; the style, class and text collections are still
  pending, and no text has changed. Likewise let no style closure throw and the class
  closure \<open>c'\<close> be the first to throw, after the class closures \<open>pre'\<close>. Then \<open>flush\<close>
  returns the batcher as the visibility Set, all style closures, \<open>pre'\<close> and the part of
  \<open>c'\<close> done left it, with the exception handed once to \<open>handleError\<close>; the visibility
  and style collections are cleared, the class and text collections are still pending,
  and no text has changed.
\<close>

theorem flush_stops_at_first_failure:
  "(map snd (pendingStyles b) = pre @ c # post
      \<and> fst (run_closures run_style pre (flush_visibility b)) = None
      \<and> fst (run_style c (snd (run_closures run_style pre (flush_visibility b)))) = Some e
    \<longrightarrow> flush b
          = flush_catch e (snd (run_style c (snd (run_closures run_style pre (flush_visibility b)))))
        \<and> pendingVisibility (flush b) = [] \<and> pendingStyles (flush b) = pendingStyles b
        \<and> pendingClasses (flush b) = pendingClasses b \<and> pendingUpdates (flush b) = pendingUpdates b
        \<and> (\<forall>j. text_of (flush b) j = text_of b j))
   \<and> (fst (run_closures run_style (map snd (pendingStyles b)) (flush_visibility b)) = None
      \<and> map snd (pendingClasses b) = pre' @ c' # post'
      \<and> fst (run_closures run_class pre' (styles_flushed b)) = None
      \<and> fst (run_class c' (snd (run_closures run_class pre' (styles_flushed b)))) = Some e'
    \<longrightarrow> flush b
          = flush_catch e' (snd (run_class c' (snd (run_closures run_class pre' (styles_flushed b)))))
        \<and> pendingVisibility (flush b) = [] \<and> pendingStyles (flush b) = []
        \<and> pendingClasses (flush b) = pendingClasses b \<and> pendingUpdates (flush b) = pendingUpdates b
        \<and> (\<forall>j. text_of (flush b) j = text_of b j))"
proof (intro conjI impI)
  assume h: "map snd (pendingStyles b) = pre @ c # post
      \<and> fst (run_closures run_style pre (flush_visibility b)) = None
      \<and> fst (run_style c (snd (run_closures run_style pre (flush_visibility b)))) = Some e"
  define b3 where "b3 = snd (run_style c (snd (run_closures run_style pre (flush_visibility b))))"
  from h have f: "flush b = flush_catch e b3"
    unfolding b3_def by (intro flush_fails_in_styles) auto
  have "quiet (flush_visibility b) (snd (run_closures run_style pre (flush_visibility b)))"
    by (intro run_closures_quiet run_style_quiet)
  then have q: "quiet (flush_visibility b) b3"
    unfolding b3_def using run_style_quiet quiet_trans by blast
  from f show "flush b
          = flush_catch e (snd (run_style c (snd (run_closures run_style pre (flush_visibility b)))))"
    by (simp add: b3_def)
  from flush_catch_keeps[OF q, of e] flush_visibility_keeps[of b] f
  show "pendingVisibility (flush b) = []" "pendingStyles (flush b) = pendingStyles b"
    "pendingClasses (flush b) = pendingClasses b" "pendingUpdates (flush b) = pendingUpdates b"
    "\<forall>j. text_of (flush b) j = text_of b j"
    by simp_all
next
  assume h: "fst (run_closures run_style (map snd (pendingStyles b)) (flush_visibility b)) = None
      \<and> map snd (pendingClasses b) = pre' @ c' # post'
      \<and> fst (run_closures run_class pre' (styles_flushed b)) = None
      \<and> fst (run_class c' (snd (run_closures run_class pre' (styles_flushed b)))) = Some e'"
  define b4 where "b4 = snd (run_class c' (snd (run_closures run_class pre' (styles_flushed b))))"
  from h have f: "flush b = flush_catch e' b4"
    unfolding b4_def by (intro flush_fails_in_classes) auto
  have "quiet (styles_flushed b) (snd (run_closures run_class pre' (styles_flushed b)))"
    by (intro run_closures_quiet run_class_quiet)
  then have q: "quiet (styles_flushed b) b4"
    unfolding b4_def using run_class_quiet quiet_trans by blast
  from f show "flush b
          = flush_catch e' (snd (run_class c' (snd (run_closures run_class pre' (styles_flushed b)))))"
    by (simp add: b4_def)
  from flush_catch_keeps[OF q, of e'] styles_flushed_keeps[of b] f
  show "pendingVisibility (flush b) = []" "pendingStyles (flush b) = []"
    "pendingClasses (flush b) = pendingClasses b" "pendingUpdates (flush b) = pendingUpdates b"
    "\<forall>j. text_of (flush b) j = text_of b j"
    by simp_all
qed

text \<open>
  Two flushes. On \<open>busy_batcher\<close> the class mutation of \<open>b\<close> throws: \<open>a\<close> is hidden, red
  and of class \<open>on\<close>, and its text is not written. On \<open>readonly_batcher\<close> the style mutation
  of \<open>a\<close> throws after its colour is set: the style of \<open>b\<close>, the class and the text are not
  written.
\<close>

theorem flush_stops_at_first_failure_witness:
  "map_option style (element_of (flush busy_batcher) ''a'') = Some [(''display'', ''none''), (''color'', ''red'')]
   \<and> map_option classList (element_of (flush busy_batcher) ''a'') = Some [''on'']
   \<and> map_option classList (element_of (flush busy_batcher) ''b'') = Some []
   \<and> text_of (flush busy_batcher) ''a'' = Some ''old''
   \<and> pendingVisibility (flush busy_batcher) = [] \<and> pendingStyles (flush busy_batcher) = []
   \<and> map fst (pendingClasses (flush busy_batcher)) = [''a'', ''b'']
   \<and> pendingUpdates (flush busy_batcher) = [(''a'', ''a'', ''new'')]
   \<and> map_option style (element_of (flush readonly_batcher) ''a'') = Some [(''color'', ''red'')]
   \<and> map_option style (element_of (flush readonly_batcher) ''b'') = Some []
   \<and> map_option classList (element_of (flush readonly_batcher) ''a'') = Some []
   \<and> text_of (flush readonly_batcher) ''a'' = Some ''old''
   \<and> map fst (pendingStyles (flush readonly_batcher)) = [''a'', ''b'']
   \<and> map fst (pendingClasses (flush readonly_batcher)) = [''a'']
   \<and> pendingUpdates (flush readonly_batcher) = [(''a'', ''a'', ''new'')]"
  using flush_stops_at_first_failure[where b = busy_batcher
      and pre' = "[(''a'', \<lparr>add = Some [''on''], remove = None\<rparr>)]"
      and c' = "(''b'', \<lparr>add = Some [[]], remove = None\<rparr>)" and post' = "[]" and e' = SyntaxError
      and pre = "[]" and c = "(''a'', [])" and post = "[]" and e = TypeError]
    flush_stops_at_first_failure[where b = readonly_batcher
      and pre = "[]" and c = "(''a'', [(''color'', ''red''), (''length'', ''5'')])"
      and post = "[(''b'', [(''color'', ''red'')])]" and e = TypeError
      and pre' = "[]" and c' = "(''a'', \<lparr>add = None, remove = None\<rparr>)" and post' = "[]" and e' = TypeError]
  by (simp add: busy_batcher_def readonly_batcher_def updateText_def updateClasses_def updateStyles_def
      updateVisibility_def new_DOMBatcher_def page2_def scheduleUpdate_def flush_visibility_def
      styles_flushed_def set_display_def getElement_def write_element_def css_set_def parse_index_color
      apply_classes_def classList_add_def token_error_def flush_catch_def element_of_def text_of_def)

text \<open>
  C7 as stated fails: with an invalid class mutation and a text mutation pending for
  element \<open>a\<close>, one \<open>flush\<close> logs the error of the class category and leaves the text of
  \<open>a\<close> as it was.
\<close>

theorem flush_class_failure_counterexample:
  "text_of (flush stuck_batcher) ''a'' = Some ''old''
   \<and> text_of (flush stuck_batcher) ''a'' \<noteq> Some ''new''
   \<and> batcherLog (flush stuck_batcher) \<noteq> []"
  by (simp add: stuck_batcher_def updateText_def updateClasses_def new_DOMBatcher_def page0_def
      scheduleUpdate_def flush_def flush_visibility_def getElement_def write_element_def text_of_def apply_classes_def
      classList_add_def token_error_def flush_catch_def handleError_def log_push_def error_of_def)

subsection \<open>load and importSave\<close>

lemma dedup_map_of: "map_of (dedup seen fs) k = (if k \<in> set seen then None else map_of fs k)"
  by (induction seen fs rule: dedup.induct) auto

lemma dedup_keys: "fst ` set (dedup seen fs) \<inter> set seen = {}"
  by (induction seen fs rule: dedup.induct) auto

lemma dedup_distinct: "distinct (map fst (dedup seen fs))"
proof (induction seen fs rule: dedup.induct)
  case (2 seen k v fs)
  then show ?case using dedup_keys[of "k # seen" fs] by auto
qed simp

lemma map_of_rev_distinct: "distinct (map fst xs) \<Longrightarrow> map_of (rev xs) k = map_of xs k"
proof -
  assume d: "distinct (map fst xs)"
  then have d': "distinct (map fst (rev xs))" by (simp add: rev_map[symmetric])
  have "\<And>v. (map_of (rev xs) k = Some v) = (map_of xs k = Some v)"
    using map_of_eq_Some_iff[OF d] map_of_eq_Some_iff[OF d'] by simp
  then show ?thesis by (cases "map_of xs k") (auto simp: option.exhaust)
qed

lemma assigned_Obj: "assigned (Obj fs) k = map_of fs k"
  by (simp add: assigned_def map_of_rev_distinct dedup_distinct dedup_map_of)

lemma wrapper_put_object:
  "is_object t \<Longrightarrow> k \<noteq> ''__proto__'' \<Longrightarrow> \<exists>t'. wrapper_put t k v = Inr t' \<and> is_object t'
     \<and> (\<forall>k'. field t' k' = (if k' = k then v else field t k'))"
  by (cases t) (auto simp: field_def obj_get_def map_of_obj_put own_write_def)

lemma assign_props_object:
  "is_object t \<Longrightarrow> ''__proto__'' \<notin> fst ` set ps \<Longrightarrow> \<exists>t'. assign_props ps t = Inr t' \<and> is_object t'
     \<and> (\<forall>k. field t' k = (case map_of (rev ps) k of Some v \<Rightarrow> v | None \<Rightarrow> field t k))"
proof (induction ps arbitrary: t)
  case Nil
  then show ?case by simp
next
  case (Cons p ps)
  obtain k v where p: "p = (k, v)" by (cases p)
  from Cons.prems p have nk: "k \<noteq> ''__proto__''" and np: "''__proto__'' \<notin> fst ` set ps" by auto
  from wrapper_put_object[OF Cons.prems(1) nk, of v] obtain t1 where
    w: "wrapper_put t k v = Inr t1" and o: "is_object t1"
    and f: "\<And>k'. field t1 k' = (if k' = k then v else field t k')" by auto
  from Cons.IH[OF o np] obtain t' where
    a: "assign_props ps t1 = Inr t'" and o': "is_object t'"
    and f': "\<And>k'. field t' k' = (case map_of (rev ps) k' of Some v \<Rightarrow> v | None \<Rightarrow> field t1 k')" by auto
  have "\<And>k'. field t' k' = (case map_of (rev (p # ps)) k' of Some v \<Rightarrow> v | None \<Rightarrow> field t k')"
    unfolding f' f p by (auto simp: map_add_def split: option.splits)
  with a o' w p show ?case by auto
qed

lemma assigned_None: "assigned src k = None \<longleftrightarrow> k \<notin> fst ` set (own_enumerable src)"
  by (simp add: assigned_def map_of_eq_None_iff)

lemma object_assign_object:
  "is_object t \<Longrightarrow> assigned src ''__proto__'' = None
   \<Longrightarrow> \<exists>t'. object_assign t src = Inr t' \<and> is_object t'
     \<and> (\<forall>k. field t' k = (case assigned src k of Some v \<Rightarrow> v | None \<Rightarrow> field t k))"
proof -
  assume o: "is_object t" and n: "assigned src ''__proto__'' = None"
  from n have "''__proto__'' \<notin> fst ` set (own_enumerable src)" by (simp add: assigned_None)
  from assign_props_object[OF o this] o show ?thesis
    by (cases t) (simp_all add: object_assign_def assigned_def)
qed

lemma obj_get_obj_put: "obj_get (obj_put k v fs) k' = (if k' = k then v else obj_get fs k')"
  by (simp add: obj_get_def map_of_obj_put)

lemma truthy_get_prop: "truthy v \<Longrightarrow> get_prop v k = Inr (field v k)"
  by (cases v) (auto simp: field_def)

lemma restore_merges:
  assumes "truthy pstate"
  shows "distinct cs \<Longrightarrow> (\<forall>c \<in> set cs. is_object (obj_get this c)) \<Longrightarrow>
    (\<forall>c \<in> set cs. assigned (saved_category pstate c) ''__proto__'' = None) \<Longrightarrow>
    \<exists>this'. restore cs pstate this = (True, this')
      \<and> (\<forall>c \<in> set cs. \<forall>k. field (obj_get this' c) k =
             (case assigned (saved_category pstate c) k of Some v \<Rightarrow> v | None \<Rightarrow> field (obj_get this c) k))
      \<and> (\<forall>k. k \<notin> set cs \<longrightarrow> obj_get this' k = obj_get this k)"
proof (induction cs arbitrary: this)
  case Nil
  then show ?case by simp
next
  case (Cons c cs)
  from Cons.prems have oc: "is_object (obj_get this c)"
    and np: "assigned (saved_category pstate c) ''__proto__'' = None" by simp_all
  from object_assign_object[OF oc np] obtain t' where
    a: "object_assign (obj_get this c) (saved_category pstate c) = Inr t'" and o: "is_object t'"
    and f: "\<And>k. field t' k = (case assigned (saved_category pstate c) k of Some v \<Rightarrow> v | None \<Rightarrow> field (obj_get this c) k)"
    by auto
  define this1 where "this1 = obj_put c t' this"
  have g1: "\<And>k. obj_get this1 k = (if k = c then t' else obj_get this k)"
    by (simp add: this1_def obj_get_obj_put)
  from Cons.prems have d: "distinct cs" and nc: "c \<notin> set cs" by auto
  have o1: "\<forall>c' \<in> set cs. is_object (obj_get this1 c')"
    using Cons.prems(2) nc by (auto simp: g1)
  from Cons.prems(3) have np': "\<forall>c' \<in> set cs. assigned (saved_category pstate c') ''__proto__'' = None"
    by simp
  from Cons.IH[OF d o1 np'] obtain this' where
    r: "restore cs pstate this1 = (True, this')"
    and m: "\<And>c' k. c' \<in> set cs \<Longrightarrow> field (obj_get this' c') k =
             (case assigned (saved_category pstate c') k of Some v \<Rightarrow> v | None \<Rightarrow> field (obj_get this1 c') k)"
    and u: "\<And>k. k \<notin> set cs \<Longrightarrow> obj_get this' k = obj_get this1 k"
    by auto
  have "restore (c # cs) pstate this = (True, this')"
    using a r truthy_get_prop[OF assms, of c]
    by (simp add: this1_def saved_category_def)
  moreover have "\<forall>c' \<in> set (c # cs). \<forall>k. field (obj_get this' c') k =
             (case assigned (saved_category pstate c') k of Some v \<Rightarrow> v | None \<Rightarrow> field (obj_get this c') k)"
  proof (intro ballI allI)
    fix c' k assume "c' \<in> set (c # cs)"
    then consider "c' = c" | "c' \<in> set cs" "c' \<noteq> c" using nc by auto
    then show "field (obj_get this' c') k =
             (case assigned (saved_category pstate c') k of Some v \<Rightarrow> v | None \<Rightarrow> field (obj_get this c') k)"
    proof cases
      case 1
      with u[OF nc] g1 f show ?thesis by (simp cong: option.case_cong)
    next
      case 2
      with m[of c' k] g1 show ?thesis by (simp cong: option.case_cong)
    qed
  qed
  moreover have "\<forall>k. k \<notin> set (c # cs) \<longrightarrow> obj_get this' k = obj_get this k"
    using u g1 by auto
  ultimately show ?case by blast
qed

lemma categories_distinct: "distinct categories"
  by (simp add: categories_def)

lemma load_Some:
  assumes "s \<noteq> []" "json_parse rt s = Some parsed"
  shows "load rt (Some s) this =
    (if truthy_field parsed ''state'' \<and> truthy_field parsed ''version''
     then restore categories (field parsed ''state'') this else (False, this))"
proof (cases "get_prop parsed ''state''")
  case (Inl e)
  with assms show ?thesis by (simp add: load_def truthy_field_def field_def)
next
  case st: (Inr pstate)
  show ?thesis
  proof (cases "get_prop parsed ''version''")
    case (Inl e)
    with assms st show ?thesis by (simp add: load_def truthy_field_def field_def)
  next
    case (Inr pversion)
    with assms st show ?thesis by (simp add: load_def truthy_field_def field_def)
  qed
qed

lemma load_rejects:
  assumes "ls = None \<or> ls = Some [] \<or> (\<exists>s. ls = Some s \<and> json_parse rt s = None)
      \<or> (\<exists>s parsed. ls = Some s \<and> json_parse rt s = Some parsed
            \<and> (\<not> truthy_field parsed ''state'' \<or> \<not> truthy_field parsed ''version''))"
  shows "load rt ls this = (False, this)"
  using assms
proof (elim disjE exE conjE)
  assume "ls = None" then show ?thesis by (simp add: load_def)
next
  assume "ls = Some []" then show ?thesis by (simp add: load_def)
next
  fix s assume "ls = Some s" "json_parse rt s = None"
  then show ?thesis by (simp add: load_def)
next
  fix s parsed assume a: "ls = Some s" "json_parse rt s = Some parsed" "\<not> truthy_field parsed ''state''"
  show ?thesis
  proof (cases "s = []")
    case True with a show ?thesis by (simp add: load_def)
  next
    case False with a load_Some[OF False a(2), of this] show ?thesis by simp
  qed
next
  fix s parsed assume a: "ls = Some s" "json_parse rt s = Some parsed" "\<not> truthy_field parsed ''version''"
  show ?thesis
  proof (cases "s = []")
    case True with a show ?thesis by (simp add: load_def)
  next
    case False with a load_Some[OF False a(2), of this] show ?thesis by simp
  qed
qed

lemma new_GameState_categories: "\<forall>c \<in> set categories. is_object (obj_get new_GameState c)"
  by (simp add: categories_def new_GameState_def obj_get_def default_resources_def
      default_production_def default_market_def default_computing_def default_infrastructure_def
      default_combat_def default_flags_def default_swarm_def default_exploration_def
      default_ui_def default_meta_def)

text \<open>
  The key \<open>__proto__\<close> of a saved category is an own property of the parsed object, and
  \<open>Object.assign\<close> hands it to the setter of the live category: the prototype is
  replaced and no own property is made. The merge below is stated for saved categories
  without this key.
\<close>

lemma proto_key_not_copied:
  "object_assign (Obj []) (Obj [(''__proto__'', Obj [(''polluted'', Bool True)])]) = Inr (Obj [])"
  by (simp add: object_assign_def own_write_def)

text \<open>
  C4, as amended. \<open>load\<close> answers \<open>false\<close> and leaves the live state as it is when the
  payload is absent or empty, does not parse, or parses to a value without a truthy
  \<open>state\<close> or without a truthy \<open>version\<close>. When the payload parses to a value with a truthy
  \<open>state\<close> and a truthy \<open>version\<close>, every live category is a plain object that takes
  writes, and no saved category has the key \<open>__proto__\<close>, \<open>load\<close> answers \<open>true\<close>; each
  key of a live category then holds the value saved for it in that category, and its
  live value when the saved category has no such key; what is not a category is
  untouched.
\<close>

theorem load_rejects_or_merges_own_keys:
  "((ls = None \<or> ls = Some [] \<or> (\<exists>s. ls = Some s \<and> json_parse rt s = None)
      \<or> (\<exists>s parsed. ls = Some s \<and> json_parse rt s = Some parsed
            \<and> (\<not> truthy_field parsed ''state'' \<or> \<not> truthy_field parsed ''version'')))
     \<longrightarrow> load rt ls this = (False, this))
   \<and> ((ls = Some s \<and> s \<noteq> [] \<and> json_parse rt s = Some parsed
        \<and> truthy_field parsed ''state'' \<and> truthy_field parsed ''version''
        \<and> (\<forall>c \<in> set categories. is_object (obj_get this c))
        \<and> (\<forall>c \<in> set categories.
              assigned (saved_category (field parsed ''state'') c) ''__proto__'' = None))
     \<longrightarrow> fst (load rt ls this)
        \<and> (\<forall>c \<in> set categories. \<forall>k.
              field (obj_get (snd (load rt ls this)) c) k =
                (case assigned (saved_category (field parsed ''state'') c) k of
                   Some v \<Rightarrow> v
                 | None \<Rightarrow> field (obj_get this c) k))
        \<and> (\<forall>k. k \<notin> set categories \<longrightarrow> obj_get (snd (load rt ls this)) k = obj_get this k))"
proof (intro conjI impI)
  assume "ls = None \<or> ls = Some [] \<or> (\<exists>s. ls = Some s \<and> json_parse rt s = None)
      \<or> (\<exists>s parsed. ls = Some s \<and> json_parse rt s = Some parsed
            \<and> (\<not> truthy_field parsed ''state'' \<or> \<not> truthy_field parsed ''version''))"
  then show "load rt ls this = (False, this)" by (rule load_rejects)
next
  assume h: "ls = Some s \<and> s \<noteq> [] \<and> json_parse rt s = Some parsed
        \<and> truthy_field parsed ''state'' \<and> truthy_field parsed ''version''
        \<and> (\<forall>c \<in> set categories. is_object (obj_get this c))
        \<and> (\<forall>c \<in> set categories.
              assigned (saved_category (field parsed ''state'') c) ''__proto__'' = None)"
  then have t: "truthy (field parsed ''state'')" by (simp add: truthy_field_def)
  from h have l: "load rt ls this = restore categories (field parsed ''state'') this"
    using load_Some[of s rt parsed this] by simp
  from h have hc: "\<forall>c \<in> set categories. is_object (obj_get this c)"
    and hp: "\<forall>c \<in> set categories. assigned (saved_category (field parsed ''state'') c) ''__proto__'' = None"
    by blast+
  from restore_merges[OF t categories_distinct hc hp] obtain this' where
    r: "restore categories (field parsed ''state'') this = (True, this')"
    and m: "\<forall>c \<in> set categories. \<forall>k. field (obj_get this' c) k =
             (case assigned (saved_category (field parsed ''state'') c) k of Some v \<Rightarrow> v | None \<Rightarrow> field (obj_get this c) k)"
    and u: "\<forall>k. k \<notin> set categories \<longrightarrow> obj_get this' k = obj_get this k"
    by blast
  from l r show "fst (load rt ls this)" by simp
  from l r m show "\<forall>c \<in> set categories. \<forall>k.
              field (obj_get (snd (load rt ls this)) c) k =
                (case assigned (saved_category (field parsed ''state'') c) k of
                   Some v \<Rightarrow> v
                 | None \<Rightarrow> field (obj_get this c) k)" by simp
  from l r u show "\<forall>k. k \<notin> set categories \<longrightarrow> obj_get (snd (load rt ls this)) k = obj_get this k" by simp
qed

text \<open>
  C4 as stated fails: a payload that is present, parses, and has both the \<open>version\<close> and
  the \<open>state\<close> field is still rejected when its version is 0.
\<close>

theorem load_falsy_version_counterexample:
  "json_parse save_runtime text_v0 = Some (Obj [(''version'', num 0), (''state'', saved_clips)])
   \<and> load save_runtime (Some text_v0) new_GameState = (False, new_GameState)"
  by (simp add: save_runtime_def load_def text_v0_def obj_get_def num_def saved_clips_def)

text \<open>An absent payload is rejected; a saved \<open>clips\<close> of 5 is merged and the live \<open>wire\<close> is kept.\<close>

theorem load_rejects_or_merges_own_keys_witness:
  "load save_runtime None new_GameState = (False, new_GameState)
   \<and> fst (load save_runtime (Some text_ok) new_GameState)
   \<and> field (obj_get (snd (load save_runtime (Some text_ok) new_GameState)) ''resources'') ''clips'' = num 5
   \<and> field (obj_get (snd (load save_runtime (Some text_ok) new_GameState)) ''resources'') ''wire'' = num 1000"
proof -
  let ?parsed = "Obj [(''version'', Str ''2.0.0''), (''state'', saved_clips)]"
  have p: "json_parse save_runtime text_ok = Some ?parsed" "text_ok \<noteq> []"
    by (simp_all add: save_runtime_def text_ok_def text_v0_def)
  have t: "truthy_field ?parsed ''state''" "truthy_field ?parsed ''version''"
    by (simp_all add: truthy_field_def field_def obj_get_def saved_clips_def)
  have r: "''resources'' \<in> set categories" by (simp add: categories_def)
  have f: "field ?parsed ''state'' = saved_clips" by (simp add: field_def obj_get_def)
  have a1: "assigned (saved_category saved_clips ''resources'') ''clips'' = Some (num 5)"
    and a2: "assigned (saved_category saved_clips ''resources'') ''wire'' = None"
    by (simp_all add: assigned_Obj saved_category_def saved_clips_def field_def obj_get_def js_or_def)
  have w: "field (obj_get new_GameState ''resources'') ''wire'' = num 1000"
    by (simp add: new_GameState_def default_resources_def field_def obj_get_def)
  have np: "\<forall>c \<in> set categories.
              assigned (saved_category (field ?parsed ''state'') c) ''__proto__'' = None"
    by (simp add: f categories_def assigned_Obj saved_category_def saved_clips_def field_def
        obj_get_def js_or_def)
  from load_rejects_or_merges_own_keys[where ls = None and rt = save_runtime and this = new_GameState]
  have "load save_runtime None new_GameState = (False, new_GameState)" by simp
  moreover
  from load_rejects_or_merges_own_keys[where ls = "Some text_ok" and rt = save_runtime and this = new_GameState
      and s = text_ok and parsed = ?parsed]
    p t new_GameState_categories np
  have m: "fst (load save_runtime (Some text_ok) new_GameState)
     \<and> (\<forall>c \<in> set categories. \<forall>k.
              field (obj_get (snd (load save_runtime (Some text_ok) new_GameState)) c) k =
                (case assigned (saved_category (field ?parsed ''state'') c) k of
                   Some v \<Rightarrow> v
                 | None \<Rightarrow> field (obj_get new_GameState c) k))" by blast
  ultimately show ?thesis using r a1 a2 w f by simp
qed

text \<open>
  C8, as amended. When the input cannot be decoded, or the storage refuses the decoded
  text, \<open>importSave\<close> answers \<open>false\<close> and changes neither the live state nor the stored
  envelope. When the input decodes, the decoded text replaces the stored envelope before
  \<open>load\<close> runs, and \<open>importSave\<close> answers what \<open>load\<close> answers; when \<open>load\<close> rejects the
  text, the live state is unchanged and the stored envelope is the decoded text.
\<close>

theorem importSave_stores_before_load:
  "((atob rt enc = None \<or> (\<exists>d. atob rt enc = Some d \<and> \<not> storage_accepts rt d))
      \<longrightarrow> importSave rt enc this ls = (False, this, ls))
   \<and> ((atob rt enc = Some d \<and> storage_accepts rt d)
      \<longrightarrow> importSave rt enc this ls
            = (fst (load rt (Some d) this), snd (load rt (Some d) this), Some d))
   \<and> ((atob rt enc = Some d \<and> storage_accepts rt d
        \<and> (d = [] \<or> json_parse rt d = None
            \<or> (\<exists>parsed. json_parse rt d = Some parsed
                  \<and> (\<not> truthy_field parsed ''state'' \<or> \<not> truthy_field parsed ''version''))))
      \<longrightarrow> importSave rt enc this ls = (False, this, Some d))"
proof (intro conjI impI)
  assume "atob rt enc = None \<or> (\<exists>d. atob rt enc = Some d \<and> \<not> storage_accepts rt d)"
  then show "importSave rt enc this ls = (False, this, ls)"
    by (auto simp: importSave_def)
next
  assume "atob rt enc = Some d \<and> storage_accepts rt d"
  then show "importSave rt enc this ls
            = (fst (load rt (Some d) this), snd (load rt (Some d) this), Some d)"
    by (simp add: importSave_def case_prod_unfold)
next
  assume h: "atob rt enc = Some d \<and> storage_accepts rt d
        \<and> (d = [] \<or> json_parse rt d = None
            \<or> (\<exists>parsed. json_parse rt d = Some parsed
                  \<and> (\<not> truthy_field parsed ''state'' \<or> \<not> truthy_field parsed ''version'')))"
  then have "load rt (Some d) this = (False, this)"
    by (intro load_rejects) auto
  with h show "importSave rt enc this ls = (False, this, Some d)"
    by (simp add: importSave_def)
qed

text \<open>
  C8 as stated fails: importing valid base64 of a text that is no JSON answers \<open>false\<close>
  and has overwritten the stored envelope.
\<close>

theorem importSave_overwrites_counterexample:
  "importSave save_runtime ''bm90IGpzb24='' new_GameState (Some text_ok)
     = (False, new_GameState, Some ''not json'')
   \<and> Some ''not json'' \<noteq> Some text_ok"
  by (simp add: importSave_def save_runtime_def load_def text_ok_def text_v0_def)

theorem importSave_stores_before_load_witness:
  "importSave save_runtime ''invalid base64'' new_GameState (Some text_ok)
     = (False, new_GameState, Some text_ok)
   \<and> importSave save_runtime ''bm90IGpzb24='' new_GameState (Some text_ok)
     = (False, new_GameState, Some ''not json'')"
proof -
  have a: "atob save_runtime ''invalid base64'' = None"
    and b: "atob save_runtime ''bm90IGpzb24='' = Some ''not json''"
    and c: "storage_accepts save_runtime ''not json''"
    and d: "json_parse save_runtime ''not json'' = None"
    by (simp_all add: save_runtime_def text_ok_def text_v0_def)
  from importSave_stores_before_load[where rt = save_runtime and enc = "''invalid base64''"
      and this = new_GameState and ls = "Some text_ok"] a
  have "importSave save_runtime ''invalid base64'' new_GameState (Some text_ok)
     = (False, new_GameState, Some text_ok)" by simp
  moreover
  from importSave_stores_before_load[where rt = save_runtime and enc = "''bm90IGpzb24=''"
      and d = "''not json''" and this = new_GameState and ls = "Some text_ok"] b c d
  have "importSave save_runtime ''bm90IGpzb24='' new_GameState (Some text_ok)
     = (False, new_GameState, Some ''not json'')" by blast
  ultimately show ?thesis by simp
qed

subsection \<open>Observers\<close>

























subsection \<open>reset\<close>






subsection \<open>loadModule\<close>

lemma loadModule_success:
  assumes "module_file name = Some src" "map_of (loadedModules pm) name = None"
    "import_file host src = Some m" "\<not> (has_init m \<and> init_throws host m)"
  shows "fst (loadModule host name pm) = Some m"
    and "map_of (loadedModules (snd (loadModule host name pm))) name = Some m"
    and "performed (snd (loadModule host name pm))
           = performed pm @ Import src # (if has_init m then [Init (module_id m)] else [])"
  using assms by (auto simp: loadModule_def Let_def map_of_obj_put)

lemma loadModule_cached:
  "map_of (loadedModules pm) name = Some m \<Longrightarrow> loadModule host name pm = (Some m, pm)"
  by (simp add: loadModule_def)

text \<open>
  C9, as amended. For a module name with a case in the \<open>switch\<close>, not yet loaded, whose
  import resolves and whose \<open>init\<close> (if it has one) does not throw: two calls in sequence
  both return the module, and between them perform the import once and the \<open>init\<close> call
  once. A module already loaded is returned from the cache with nothing acquired. When
  the import rejects or \<open>init\<close> throws, \<open>loadModule\<close> returns \<open>null\<close> and caches nothing. For
  a name without a case, \<open>loadModule\<close> returns \<open>null\<close> and acquires nothing.
\<close>

theorem loadModule_caches_on_success:
  "((module_file name = Some src \<and> map_of (loadedModules pm) name = None
       \<and> import_file host src = Some m \<and> \<not> (has_init m \<and> init_throws host m))
     \<longrightarrow> fst (loadModule_twice host name pm) = Some m
         \<and> fst (snd (loadModule_twice host name pm)) = Some m
         \<and> performed (snd (snd (loadModule_twice host name pm)))
             = performed pm @ Import src # (if has_init m then [Init (module_id m)] else []))
   \<and> (map_of (loadedModules pm) name = Some m
     \<longrightarrow> loadModule_twice host name pm = (Some m, Some m, pm))
   \<and> ((module_file name = Some src \<and> map_of (loadedModules pm) name = None
        \<and> (import_file host src = None
            \<or> (import_file host src = Some m \<and> has_init m \<and> init_throws host m)))
     \<longrightarrow> fst (loadModule host name pm) = None
         \<and> loadedModules (snd (loadModule host name pm)) = loadedModules pm)
   \<and> ((module_file name = None \<and> map_of (loadedModules pm) name = None)
     \<longrightarrow> fst (loadModule host name pm) = None
         \<and> loadedModules (snd (loadModule host name pm)) = loadedModules pm
         \<and> performed (snd (loadModule host name pm)) = performed pm)"
proof (intro conjI impI)
  assume h: "module_file name = Some src \<and> map_of (loadedModules pm) name = None
       \<and> import_file host src = Some m \<and> \<not> (has_init m \<and> init_throws host m)"
  obtain r1 pm1 where l: "loadModule host name pm = (r1, pm1)" by (cases "loadModule host name pm")
  from h loadModule_success[of name src pm host m] l
  have r1: "r1 = Some m" and c: "map_of (loadedModules pm1) name = Some m"
    and p: "performed pm1 = performed pm @ Import src # (if has_init m then [Init (module_id m)] else [])"
    by auto
  from loadModule_cached[OF c, of host] l r1 p
  show "fst (loadModule_twice host name pm) = Some m"
    and "fst (snd (loadModule_twice host name pm)) = Some m"
    and "performed (snd (snd (loadModule_twice host name pm)))
             = performed pm @ Import src # (if has_init m then [Init (module_id m)] else [])"
    by (simp_all add: loadModule_twice_def)
next
  assume "map_of (loadedModules pm) name = Some m"
  then show "loadModule_twice host name pm = (Some m, Some m, pm)"
    by (simp add: loadModule_twice_def loadModule_cached)
next
  assume h: "module_file name = Some src \<and> map_of (loadedModules pm) name = None
        \<and> (import_file host src = None
            \<or> (import_file host src = Some m \<and> has_init m \<and> init_throws host m))"
  then show "fst (loadModule host name pm) = None"
    and "loadedModules (snd (loadModule host name pm)) = loadedModules pm"
    by (auto simp: loadModule_def Let_def load_failed_def)
next
  assume h: "module_file name = None \<and> map_of (loadedModules pm) name = None"
  then show "fst (loadModule host name pm) = None"
    and "loadedModules (snd (loadModule host name pm)) = loadedModules pm"
    and "performed (snd (loadModule host name pm)) = performed pm"
    by (simp_all add: loadModule_def Let_def)
qed

text \<open>
  C9 as stated fails: when the \<open>init\<close> of the swarm module throws, two calls in sequence
  both return \<open>null\<close>, and the import and the \<open>init\<close> call are each performed twice.
\<close>

theorem loadModule_retry_counterexample:
  "fst (loadModule_twice failing_host ''swarm'' new_PhaseManager) = None
   \<and> fst (snd (loadModule_twice failing_host ''swarm'' new_PhaseManager)) = None
   \<and> performed (snd (snd (loadModule_twice failing_host ''swarm'' new_PhaseManager)))
       = [Import ''../systems/swarm.js'', Init 1, Import ''../systems/swarm.js'', Init 1]"
  by (simp add: loadModule_twice_def loadModule_def failing_host_def new_PhaseManager_def module_file_def
      swarm_module_def load_failed_def Let_def)

theorem loadModule_caches_on_success_witness:
  "fst (loadModule_twice good_host ''swarm'' new_PhaseManager) = Some swarm_module
   \<and> fst (snd (loadModule_twice good_host ''swarm'' new_PhaseManager)) = Some swarm_module
   \<and> performed (snd (snd (loadModule_twice good_host ''swarm'' new_PhaseManager)))
       = [Import ''../systems/swarm.js'', Init 1]
   \<and> fst (loadModule good_host ''production'' new_PhaseManager) = None
   \<and> fst (loadModule failing_host ''swarm'' new_PhaseManager) = None"
proof -
  have a: "module_file ''swarm'' = Some ''../systems/swarm.js''" "module_file ''production'' = None"
    by (simp_all add: module_file_def)
  have b: "map_of (loadedModules new_PhaseManager) ''swarm'' = None"
    "map_of (loadedModules new_PhaseManager) ''production'' = None"
    "performed new_PhaseManager = []"
    by (simp_all add: new_PhaseManager_def)
  have c: "import_file good_host ''../systems/swarm.js'' = Some swarm_module"
    "\<not> (has_init swarm_module \<and> init_throws good_host swarm_module)"
    "has_init swarm_module" "module_id swarm_module = 1"
    "import_file failing_host ''../systems/swarm.js'' = Some swarm_module"
    "init_throws failing_host swarm_module"
    by (simp_all add: good_host_def failing_host_def swarm_module_def)
  from loadModule_caches_on_success[where name = "''swarm''" and src = "''../systems/swarm.js''"
      and pm = new_PhaseManager and host = good_host and m = swarm_module] a b c
  have "fst (loadModule_twice good_host ''swarm'' new_PhaseManager) = Some swarm_module
   \<and> fst (snd (loadModule_twice good_host ''swarm'' new_PhaseManager)) = Some swarm_module
   \<and> performed (snd (snd (loadModule_twice good_host ''swarm'' new_PhaseManager)))
       = [Import ''../systems/swarm.js'', Init 1]" by simp
  moreover
  from loadModule_caches_on_success[where name = "''production''" and pm = new_PhaseManager and host = good_host] a b
  have "fst (loadModule good_host ''production'' new_PhaseManager) = None" by simp
  moreover
  from loadModule_caches_on_success[where name = "''swarm''" and src = "''../systems/swarm.js''"
      and pm = new_PhaseManager and host = failing_host and m = swarm_module] a b c
  have "fst (loadModule failing_host ''swarm'' new_PhaseManager) = None" by simp
  ultimately show ?thesis by simp
qed

end
